theory Spec2Isabelle
  imports Complex_Main "HOL-Library.Sublist" "HOL-Library.Log_Nat"
begin

section \<open>Python values used by the matching and shortlisting agents\<close>

text \<open>
  The agents are Python. A string is modelled as a \<open>string\<close>, the list of its
  characters, each a code point below 256 (ASCII and Latin-1); \<open>None\<close> as \<open>None\<close> of
  an option type; an exception as the left summand of a sum type. On well-typed data
  the scoring arithmetic raises \<open>ZeroDivisionError\<close> (the operator \<open>/\<close>) and
  \<open>OverflowError\<close> (an \<open>int\<close> too large for a \<open>float\<close>); \<open>json.loads\<close> raises
  \<open>JSONDecodeError\<close> and, on some payloads, other exceptions.
\<close>

datatype py_error =
  ZeroDivisionError | OverflowError | JSONDecodeError | RecursionError | ValueError | TypeError

definition bind_err :: "py_error + 'a \<Rightarrow> ('a \<Rightarrow> py_error + 'b) \<Rightarrow> py_error + 'b" where
  "bind_err m f = (case m of Inl e \<Rightarrow> Inl e | Inr v \<Rightarrow> f v)"

subsection \<open>Strings: \<open>str.lower\<close>, the operator \<open>in\<close>, \<open>" ".join\<close>\<close>

text \<open>
  \<open>str.lower\<close> on the code points below 256: the letters \<open>A\<close> to \<open>Z\<close> (65 to 90) and
  the Latin-1 capitals (192 to 222, but for the multiplication sign 215) move up by 32;
  every other character is kept.
\<close>

definition lower_char :: "char \<Rightarrow> char" where
  "lower_char c =
     (let n = (of_char c :: nat)
      in if (65 \<le> n \<and> n \<le> 90) \<or> (192 \<le> n \<and> n \<le> 222 \<and> n \<noteq> 215)
         then char_of (n + 32) else c)"

definition lower :: "string \<Rightarrow> string" where
  "lower s = map lower_char s"

text \<open>\<open>a in b\<close> on two strings is the contiguous-substring test, \<^const>\<open>sublist\<close>.\<close>

fun join_space :: "string list \<Rightarrow> string" where
  "join_space [] = []"
| "join_space [s] = s"
| "join_space (s # t # ts) = s @ '' '' @ join_space (t # ts)"

subsection \<open>Sets\<close>

text \<open>
  A Python \<open>set\<close> is modelled by a list without duplicates, in some iteration order;
  \<open>len\<close> is \<^const>\<open>length\<close>. \<open>set(xs)\<close> of a list drops the duplicates.
\<close>

definition py_set :: "'a list \<Rightarrow> 'a list" where
  "py_set xs = remdups xs"

definition py_add :: "'a list \<Rightarrow> 'a \<Rightarrow> 'a list" where
  "py_add s x = (if x \<in> set s then s else s @ [x])"

definition py_update :: "'a list \<Rightarrow> 'a list \<Rightarrow> 'a list" where
  "py_update s xs = fold (\<lambda>x acc. py_add acc x) xs s"

definition py_union :: "'a list \<Rightarrow> 'a list \<Rightarrow> 'a list" where
  "py_union a b = py_update a b"

definition py_intersection :: "'a list \<Rightarrow> 'a list \<Rightarrow> 'a list" where
  "py_intersection a b = filter (\<lambda>x. x \<in> set b) a"

subsection \<open>Floats\<close>

text \<open>
  A Python \<open>float\<close> is an IEEE 754 binary64 number. Every finite double is a rational,
  and every arithmetic operation rounds the exact result to the nearest double, ties
  to even: 53 significant bits, subnormal numbers below \<open>2 powi (-1022)\<close> with the
  fixed quantum \<open>2 powi (-1074)\<close>. A float literal such as \<open>0.6\<close> is \<open>rnd64 (6/10)\<close>;
  \<open>0.5\<close>, \<open>0.25\<close> and \<open>1.0\<close> are doubles as they stand.

  A score is a finite double and is kept as the \<open>rat\<close> it denotes; the operations on
  scores are \<open>fadd\<close>, \<open>fsub\<close>, \<open>fmul\<close> and \<open>truediv\<close>. The candidate's years of
  experience come out of the decoded JSON and may be any Python number: an \<open>int\<close> of
  any size (a \<open>bool\<close> is the \<open>int\<close> 0 or 1), or a \<open>float\<close>, which may be infinite or
  NaN. These are the types \<open>py_number\<close> and \<open>py_float\<close> below, with the operations
  that \<open>calculate_experience_match\<close> applies to them. The two zeros of IEEE 754 are
  one value here: they compare equal, and no operation of the agents tells them apart.
\<close>

definition round_half_even :: "rat \<Rightarrow> int" where
  "round_half_even x =
     (let f = \<lfloor>x\<rfloor>; d = x - of_int f
      in if d < 1/2 then f else if 1/2 < d then f + 1 else if even f then f else f + 1)"

text \<open>The binary exponent \<open>e\<close> of a positive rational \<open>x\<close>: \<open>2 powi e \<le> x < 2 powi (e + 1)\<close>.\<close>

definition ilog2 :: "rat \<Rightarrow> int" where
  "ilog2 x = (let (p, q) = quotient_of x; e0 = bitlen p - bitlen q
              in if 2 powi e0 \<le> x then e0 else e0 - 1)"

definition rnd64 :: "rat \<Rightarrow> rat" where
  "rnd64 x =
     (if x = 0 then 0
      else let q = 2 powi (max (ilog2 \<bar>x\<bar> - 52) (- 1074))
           in of_int (round_half_even (x / q)) * q)"

definition fadd :: "rat \<Rightarrow> rat \<Rightarrow> rat" where
  "fadd a b = rnd64 (a + b)"

definition fsub :: "rat \<Rightarrow> rat \<Rightarrow> rat" where
  "fsub a b = rnd64 (a - b)"

definition fmul :: "rat \<Rightarrow> rat \<Rightarrow> rat" where
  "fmul a b = rnd64 (a * b)"

text \<open>The operator \<open>/\<close> raises on a zero divisor.\<close>

definition truediv :: "rat \<Rightarrow> rat \<Rightarrow> py_error + rat" where
  "truediv a b = (if b = 0 then Inl ZeroDivisionError else Inr (rnd64 (a / b)))"

text \<open>\<open>round(x, 3)\<close>: the nearest multiple of \<open>0.001\<close>, ties to even, as a double.\<close>

definition round3 :: "rat \<Rightarrow> rat" where
  "round3 x = rnd64 (of_int (round_half_even (x * 1000)) / 1000)"

text \<open>
  A float with its special values. A finite float is \<open>Finite x\<close> with \<open>x\<close> a double; the
  operations are defined, and the properties below proved, for every rational \<open>x\<close>.
  \<open>Finite x\<close> is also used for the exact value of an \<open>int\<close> in a comparison, which
  Python decides without rounding.
\<close>

datatype py_float = Finite rat | PosInf | NegInf | NaN

datatype py_number = PyInt int | PyFloat py_float

definition exact :: "py_number \<Rightarrow> py_float" where
  "exact c = (case c of PyInt n \<Rightarrow> Finite (of_int n) | PyFloat f \<Rightarrow> f)"

text \<open>
  Rounding to a double overflows from \<open>2^1024 - 2^970\<close> on, half a unit in the last
  place above the largest double: a float operation then yields an infinity, the
  conversion of an \<open>int\<close> raises \<open>OverflowError\<close>.
\<close>

definition overflow_threshold :: rat where
  "overflow_threshold = 2 ^ 1024 - 2 ^ 970"

definition to_float :: "rat \<Rightarrow> py_float" where
  "to_float x =
     (if overflow_threshold \<le> x then PosInf
      else if x \<le> - overflow_threshold then NegInf
      else Finite (rnd64 x))"

definition float_of_int :: "int \<Rightarrow> py_error + py_float" where
  "float_of_int n =
     (if overflow_threshold \<le> \<bar>of_int n\<bar> then Inl OverflowError
      else Inr (Finite (rnd64 (of_int n))))"

text \<open>The operand of a float operation: an \<open>int\<close> is converted first.\<close>

definition as_float :: "py_number \<Rightarrow> py_error + py_float" where
  "as_float c = (case c of PyInt n \<Rightarrow> float_of_int n | PyFloat f \<Rightarrow> Inr f)"

text \<open>The comparisons \<open><\<close> and \<open><=\<close>: false whenever an operand is NaN.\<close>

fun float_lt :: "py_float \<Rightarrow> py_float \<Rightarrow> bool" where
  "float_lt NaN b = False"
| "float_lt a NaN = False"
| "float_lt (Finite x) (Finite y) = (x < y)"
| "float_lt a PosInf = (a \<noteq> PosInf)"
| "float_lt NegInf b = (b \<noteq> NegInf)"
| "float_lt a b = False"

fun float_le :: "py_float \<Rightarrow> py_float \<Rightarrow> bool" where
  "float_le NaN b = False"
| "float_le a NaN = False"
| "float_le (Finite x) (Finite y) = (x \<le> y)"
| "float_le a PosInf = True"
| "float_le NegInf b = True"
| "float_le a b = False"

text \<open>
  Addition, negation, subtraction and multiplication: NaN from a NaN operand, from
  \<open>inf - inf\<close> and from \<open>0 * inf\<close>.
\<close>

fun float_add :: "py_float \<Rightarrow> py_float \<Rightarrow> py_float" where
  "float_add NaN b = NaN"
| "float_add a NaN = NaN"
| "float_add (Finite x) (Finite y) = to_float (x + y)"
| "float_add PosInf NegInf = NaN"
| "float_add NegInf PosInf = NaN"
| "float_add PosInf b = PosInf"
| "float_add NegInf b = NegInf"
| "float_add a b = b"

fun float_neg :: "py_float \<Rightarrow> py_float" where
  "float_neg (Finite x) = Finite (- x)"
| "float_neg PosInf = NegInf"
| "float_neg NegInf = PosInf"
| "float_neg NaN = NaN"

definition float_sub :: "py_float \<Rightarrow> py_float \<Rightarrow> py_float" where
  "float_sub a b = float_add a (float_neg b)"

fun float_mul :: "py_float \<Rightarrow> py_float \<Rightarrow> py_float" where
  "float_mul NaN b = NaN"
| "float_mul a NaN = NaN"
| "float_mul (Finite x) (Finite y) = to_float (x * y)"
| "float_mul a b =
     (if a = Finite 0 \<or> b = Finite 0 then NaN
      else if float_lt a (Finite 0) = float_lt b (Finite 0) then PosInf
      else NegInf)"

text \<open>
  The operator \<open>/\<close> on two floats: it raises on a zero divisor, whatever the dividend
  is, before anything else.
\<close>

fun float_truediv :: "py_float \<Rightarrow> py_float \<Rightarrow> py_error + py_float" where
  "float_truediv a (Finite y) =
     (if y = 0 then Inl ZeroDivisionError
      else case a of
             Finite x \<Rightarrow> Inr (to_float (x / y))
           | NaN \<Rightarrow> Inr NaN
           | PosInf \<Rightarrow> Inr (if 0 < y then PosInf else NegInf)
           | NegInf \<Rightarrow> Inr (if 0 < y then NegInf else PosInf))"
| "float_truediv a NaN = Inr NaN"
| "float_truediv (Finite x) b = Inr (Finite 0)"
| "float_truediv a b = Inr NaN"

text \<open>
  \<open>min(a, b)\<close> and \<open>max(a, b)\<close>: the built-ins keep the first argument unless the
  second is smaller, or greater.
\<close>

definition py_min :: "py_float \<Rightarrow> py_float \<Rightarrow> py_float" where
  "py_min a b = (if float_lt b a then b else a)"

definition py_max :: "py_float \<Rightarrow> py_float \<Rightarrow> py_float" where
  "py_max a b = (if float_lt a b then b else a)"

text \<open>
  The operators \<open>-\<close> and \<open>/\<close> with a number on the left and a float on the right:
  an \<open>int\<close> operand is converted to a float, which may raise, and the float operation
  follows.
\<close>

definition number_sub :: "py_number \<Rightarrow> py_float \<Rightarrow> py_error + py_float" where
  "number_sub c b = bind_err (as_float c) (\<lambda>a. Inr (float_sub a b))"

definition number_truediv :: "py_number \<Rightarrow> py_float \<Rightarrow> py_error + py_float" where
  "number_truediv c b = bind_err (as_float c) (\<lambda>a. float_truediv a b)"

text \<open>
  The score that a finite float is. Every float that \<open>calculate_experience_match\<close>
  returns is finite (lemma \<open>experience_finite\<close>), so the value given here to the
  other floats is never used.
\<close>

fun finite_value :: "py_float \<Rightarrow> rat" where
  "finite_value (Finite x) = x"
| "finite_value a = 0"

subsection \<open>The structured records\<close>

text \<open>
  The job summary and the candidate profile are both plain \<open>dict\<close>s decoded from JSON.
  A well-formed one is modelled by a record of the keys the scorers read, each at the
  type the upstream cleaning gives it; an absent key holds the default of the
  \<open>.get\<close> that reads it (\<open>[]\<close> for the lists, \<open>None\<close> otherwise).
  \<open>total_experience_years\<close> is \<open>None\<close> for \<open>null\<close> and for a value that is not a number
  (it fails \<open>isinstance(v, (int, float))\<close>), and the number otherwise.
\<close>

record py_dict =
  required_skills :: "string list"
  preferred_skills :: "string list"
  domain_expertise :: "string list"
  soft_skills :: "string list"
  essential_requirements :: "string list"
  required_education :: "string option"
  required_experience_years :: "string option"
  skills :: "string list"
  certifications :: "string list"
  education :: "string list"
  total_experience_years :: "py_number option"

section \<open>matching\_agent.py: the synonym table and \<open>expand_skills\<close>\<close>

text \<open>
  A \<open>dict\<close> from strings to lists is an association list with distinct keys:
  \<open>k in d\<close> and \<open>d[k]\<close> are \<^const>\<open>map_of\<close>, \<open>d.items()\<close> is the list itself.
\<close>

type_synonym synonyms = "(string \<times> string list) list"

definition SKILL_SYNONYMS :: synonyms where
  "SKILL_SYNONYMS =
    [(''databases'', [''sql'', ''mysql'', ''postgresql'', ''nosql'', ''database management'',
        ''database'']),
     (''web development'', [''html'', ''css'', ''javascript'', ''react'', ''angular'', ''vue'',
        ''node.js'', ''django'', ''flask'', ''spring boot'', ''web dev'', ''frontend'',
        ''backend'']),
     (''cloud'', [''aws'', ''azure'', ''gcp'', ''google cloud'', ''amazon web services'',
        ''cloud computing'']),
     (''machine learning'', [''ml'', ''deep learning'', ''tensorflow'', ''pytorch'',
        ''scikit-learn'', ''ai'']),
     (''artificial intelligence'', [''ai'', ''ml'', ''deep learning'', ''nlp'',
        ''computer vision'']),
     (''cybersecurity'', [''security'', ''network security'', ''penetration testing'',
        ''pen testing'', ''risk assessment'', ''vulnerability assessment'', ''infosec'']),
     (''python'', [''python3'']),
     (''java'', [''java se'', ''java ee''])]"

text \<open>
  The body of the loop \<open>for skill in skill_set\<close>: the direct synonyms of a key, then
  the inner loop over \<open>synonyms.items()\<close> adding every key that lists the skill.
\<close>

definition expand_one :: "synonyms \<Rightarrow> string \<Rightarrow> string list \<Rightarrow> string list" where
  "expand_one synonyms skill expanded =
     (let expanded1 = (case map_of synonyms skill of
                         Some value_list \<Rightarrow> py_update expanded value_list
                       | None \<Rightarrow> expanded)
      in fold (\<lambda>(key, value_list) acc. if skill \<in> set value_list then py_add acc key else acc)
           synonyms expanded1)"

definition expand_skills :: "string list \<Rightarrow> synonyms \<Rightarrow> string list" where
  "expand_skills skill_set synonyms =
     (if skill_set = [] then []
      else fold (expand_one synonyms) skill_set skill_set)"

section \<open>matching\_agent.py: helper functions\<close>

text \<open>
  \<open>json.loads\<close> is a library function and is a parameter \<open>loads\<close> of the model: it
  raises an exception or returns the decoded value, which is a \<open>dict\<close> or a value of
  another type, kept by the name of its Python type. \<open>safe_json_loads\<close> catches
  \<open>JSONDecodeError\<close> and nothing else: any other exception of \<open>json.loads\<close> leaves
  the function.
\<close>

datatype json_value = Dict py_dict | Other string

definition safe_json_loads ::
  "(string \<Rightarrow> py_error + json_value) \<Rightarrow> string option \<Rightarrow> py_error + json_value option" where
  "safe_json_loads loads json_string =
     (case json_string of
        None \<Rightarrow> Inr None
      | Some s \<Rightarrow>
          if s = [] then Inr None
          else (case loads s of
                  Inr v \<Rightarrow> Inr (Some v)
                | Inl e \<Rightarrow> if e = JSONDecodeError then Inr None else Inl e))"

text \<open>
  \<open>re.findall(r'\d+\.?\d*', s)[0]\<close>: the leftmost digit starts the match, which takes
  the whole run of digits, a dot if one follows, and the digits after that dot. The
  match is kept as its integer digits and its fraction digits; \<open>float\<close> of it is the
  double nearest to the decimal, and \<open>inf\<close> when the decimal is too large for a double
  (\<open>float\<close> of a string does not raise then). Below 256 the only characters that \<open>\d\<close>
  matches are \<open>0\<close> to \<open>9\<close>.
\<close>

definition is_digit :: "char \<Rightarrow> bool" where
  "is_digit c = (let n = (of_char c :: nat) in 48 \<le> n \<and> n \<le> 57)"

definition decimal_value :: "string \<Rightarrow> int" where
  "decimal_value ds = foldl (\<lambda>a c. 10 * a + (of_char c - 48)) 0 ds"

definition first_number :: "string \<Rightarrow> (string \<times> string) option" where
  "first_number s =
     (case dropWhile (\<lambda>c. \<not> is_digit c) s of
        [] \<Rightarrow> None
      | d # ds \<Rightarrow>
          (let int_digits = takeWhile is_digit (d # ds)
           in case dropWhile is_digit (d # ds) of
                [] \<Rightarrow> Some (int_digits, [])
              | c # cs \<Rightarrow>
                  if c = CHR ''.'' then Some (int_digits, takeWhile is_digit cs)
                  else Some (int_digits, [])))"

definition float_of_decimal :: "string \<times> string \<Rightarrow> py_float" where
  "float_of_decimal m =
     to_float (of_int (decimal_value (fst m))
               + of_int (decimal_value (snd m)) / 10 ^ length (snd m))"

definition parse_experience_years :: "string option \<Rightarrow> py_float option" where
  "parse_experience_years exp_string =
     (case exp_string of
        None \<Rightarrow> None
      | Some s \<Rightarrow>
          if s = [] then None
          else (case first_number s of
                  Some m \<Rightarrow> Some (float_of_decimal m)
                | None \<Rightarrow> None))"

section \<open>matching\_agent.py: the component scorers\<close>

definition calculate_skill_match :: "py_dict \<Rightarrow> py_dict \<Rightarrow> py_error + rat" where
  "calculate_skill_match jd_data cv_data =
     (let jd_req_skills_raw = py_set (required_skills jd_data);
          jd_pref_skills_raw = py_set (preferred_skills jd_data);
          jd_domain_raw = py_set (domain_expertise jd_data);
          jd_soft_raw = py_set (soft_skills jd_data);
          jd_req_skills = expand_skills jd_req_skills_raw SKILL_SYNONYMS;
          jd_pref_skills = expand_skills jd_pref_skills_raw SKILL_SYNONYMS;
          jd_domain = expand_skills jd_domain_raw SKILL_SYNONYMS;
          jd_soft = jd_soft_raw;
          cv_tech_skills = py_set (skills cv_data);
          cv_domain = py_set (domain_expertise cv_data);
          cv_soft = py_set (soft_skills cv_data);
          all_cv_skills = py_union (py_union cv_tech_skills cv_domain) cv_soft
      in
      bind_err
        (if jd_req_skills_raw \<noteq> []
         then truediv (of_nat (length (py_intersection jd_req_skills all_cv_skills)))
                (of_nat (length jd_req_skills_raw))
         else Inr (1/2)) (\<lambda>required_match.
      bind_err
        (if jd_pref_skills_raw \<noteq> []
         then truediv (of_nat (length (py_intersection jd_pref_skills all_cv_skills)))
                (of_nat (length jd_pref_skills_raw))
         else Inr 0) (\<lambda>preferred_match.
      bind_err
        (if jd_domain_raw \<noteq> []
         then truediv (of_nat (length (py_intersection jd_domain cv_domain)))
                (of_nat (length jd_domain_raw))
         else Inr (1/2)) (\<lambda>domain_match.
      bind_err
        (if jd_soft_raw \<noteq> []
         then truediv (of_nat (length (py_intersection jd_soft cv_soft)))
                (of_nat (length jd_soft_raw))
         else Inr (1/2)) (\<lambda>soft_match.
      let w_required = rnd64 (60/100); w_preferred = rnd64 (10/100);
          w_domain = rnd64 (15/100); w_soft = rnd64 (15/100);
          total_weight0 = 0; weighted_score0 = 0;
          weighted_score1 = (if jd_req_skills_raw \<noteq> []
             then fadd weighted_score0 (fmul required_match w_required) else weighted_score0);
          total_weight1 = (if jd_req_skills_raw \<noteq> []
             then fadd total_weight0 w_required else total_weight0);
          weighted_score2 = (if jd_pref_skills_raw \<noteq> []
             then fadd weighted_score1 (fmul preferred_match w_preferred) else weighted_score1);
          total_weight2 = (if jd_pref_skills_raw \<noteq> []
             then fadd total_weight1 w_preferred else total_weight1);
          weighted_score3 = (if jd_domain_raw \<noteq> []
             then fadd weighted_score2 (fmul domain_match w_domain) else weighted_score2);
          total_weight3 = (if jd_domain_raw \<noteq> []
             then fadd total_weight2 w_domain else total_weight2);
          weighted_score = (if jd_soft_raw \<noteq> []
             then fadd weighted_score3 (fmul soft_match w_soft) else weighted_score3);
          total_weight = (if jd_soft_raw \<noteq> []
             then fadd total_weight3 w_soft else total_weight3)
      in if total_weight = 0 then Inr (1/2)
         else truediv weighted_score total_weight)))))"

text \<open>The loop \<open>for req in essential_reqs\<close>, counting the requirements that are met.\<close>

definition requirement_met :: "string list \<Rightarrow> string \<Rightarrow> string \<Rightarrow> bool" where
  "requirement_met cv_quals_combined cv_edu_text req =
     (let req_lower = lower req
      in req_lower \<in> set cv_quals_combined \<or> sublist req_lower cv_edu_text)"

definition check_essential_requirements :: "py_dict \<Rightarrow> py_dict \<Rightarrow> py_error + rat" where
  "check_essential_requirements jd_data cv_data =
     (let essential_reqs = py_set (essential_requirements jd_data)
      in if essential_reqs = [] then Inr 1
         else
           let cv_skills = py_set (skills cv_data);
               cv_certs = py_set (certifications cv_data);
               cv_education_list = education cv_data;
               cv_quals_combined = py_union cv_skills cv_certs;
               cv_edu_text = join_space (map lower cv_education_list);
               met_requirements =
                 fold (\<lambda>req met. if requirement_met cv_quals_combined cv_edu_text req
                                   then met + 1 else met) essential_reqs (0::nat)
           in if essential_reqs \<noteq> []
              then truediv (of_nat met_requirements) (of_nat (length essential_reqs))
              else Inr 1)"

definition degree_hierarchy :: "(string \<times> nat) list" where
  "degree_hierarchy =
     [(''phd'', 4), (''doctorate'', 4),
      (''master'', 3), (''mba'', 3), (''msc'', 3), (''meng'', 3), (''m.sc'', 3), (''m.eng'', 3),
      (''bachelor'', 2), (''undergraduate'', 2), (''bs'', 2), (''ba'', 2), (''beng'', 2),
      (''b.s'', 2), (''b.a'', 2), (''b.eng'', 2),
      (''associate'', 1), (''diploma'', 1), (''certificate'', 1)]"

text \<open>
  The two loops \<open>for degree, level in degree_hierarchy.items()\<close>: the job's over the
  lower-cased requirement, the candidate's over one lower-cased phrase, entered with the
  level reached by the phrases before it.
\<close>

definition jd_level_of :: "string \<Rightarrow> nat" where
  "jd_level_of jd_edu_lower =
     fold (\<lambda>(degree, level) jd_level.
             if sublist degree jd_edu_lower then max jd_level level else jd_level)
       degree_hierarchy 0"

definition cv_level_scan :: "string \<Rightarrow> nat \<Rightarrow> nat" where
  "cv_level_scan edu_lower cv_level0 =
     fold (\<lambda>(degree, level) cv_level.
             if sublist degree edu_lower
             then (if level > cv_level then level else cv_level)
             else cv_level)
       degree_hierarchy cv_level0"

definition cv_level_of :: "string list \<Rightarrow> nat" where
  "cv_level_of cv_education_list =
     fold (\<lambda>edu_str cv_level. cv_level_scan (lower edu_str) cv_level) cv_education_list 0"

definition calculate_education_match :: "string option \<Rightarrow> string list option \<Rightarrow> rat" where
  "calculate_education_match jd_education_str cv_education_list =
     (case jd_education_str of
        None \<Rightarrow> 1/2
      | Some jd \<Rightarrow>
          if jd = [] \<or> lower jd \<in> set [''none'', ''none specified'', ''n/a''] then 1/2
          else
            (case cv_education_list of
               None \<Rightarrow> 0
             | Some cv \<Rightarrow>
                 if cv = [] then 0
                 else
                   let jd_edu_lower = lower jd;
                       jd_level = jd_level_of jd_edu_lower
                   in if jd_level = 0 \<and> length jd_edu_lower > 3 then 1/2
                      else if jd_level = 0 then 1/2
                      else
                        let cv_level = cv_level_of cv
                        in if cv_level \<ge> jd_level then 1 else 0))"

text \<open>
  \<open>calculate_experience_match\<close>, line by line. \<open>cv_total_exp_years\<close> is \<open>None\<close> when it
  is \<open>None\<close> or fails \<open>isinstance(cv_total_exp_years, (int, float))\<close>. The comparisons
  of the number with \<open>0\<close> and with \<open>jd_min_years\<close> are exact and never raise; the
  subtraction and the division convert an \<open>int\<close> first.
\<close>

definition calculate_experience_match ::
  "string option \<Rightarrow> py_number option \<Rightarrow> py_error + py_float" where
  "calculate_experience_match jd_exp_years_str cv_total_exp_years =
     (case parse_experience_years jd_exp_years_str of
        None \<Rightarrow>
          (case cv_total_exp_years of
             None \<Rightarrow> Inr (Finite 0)
           | Some cv_years \<Rightarrow>
               if float_lt (Finite 0) (exact cv_years) then Inr (Finite (1/2))
               else Inr (Finite 0))
      | Some jd_min_years \<Rightarrow>
          (case cv_total_exp_years of
             None \<Rightarrow> Inr (Finite 0)
           | Some cv_years \<Rightarrow>
               if float_lt (exact cv_years) (Finite 0) then Inr (Finite 0)
               else if float_le jd_min_years (exact cv_years) then
                 bind_err (number_sub cv_years jd_min_years) (\<lambda>difference.
                 let bonus = py_min (Finite (rnd64 (2/10)))
                               (float_mul difference (Finite (rnd64 (5/100))));
                     score = py_min (Finite 1) (float_add (Finite 1) bonus)
                 in Inr score)
               else
                 bind_err (number_truediv cv_years jd_min_years) (\<lambda>partial_score.
                 Inr (py_max (Finite 0) partial_score))))"

section \<open>database\_utils.py: the store\<close>

text \<open>
  The SQLite connection is modelled by the tables it holds, with the columns the two
  agents read or write: the rows of \<open>job_descriptions\<close> and \<open>candidates\<close> by their
  primary key, the rows of \<open>matches\<close> as a list. A query that fails with
  \<open>sqlite3.Error\<close> returns \<open>None\<close> in the source, as an absent row does.
\<close>

record jd_row =
  summary_json :: "string option"

record candidate_row =
  cv_filename :: string
  extracted_data_json :: "string option"

record match_row =
  match_id :: int
  jd_id :: int
  candidate_id :: int
  match_score :: rat
  shortlist_status :: bool

record connection =
  job_descriptions :: "int \<rightharpoonup> jd_row"
  candidates :: "int \<rightharpoonup> candidate_row"
  matches :: "match_row list"

definition get_jd :: "connection \<Rightarrow> int \<Rightarrow> jd_row option" where
  "get_jd conn jd = job_descriptions conn jd"

definition get_candidate :: "connection \<Rightarrow> int \<Rightarrow> candidate_row option" where
  "get_candidate conn candidate = candidates conn candidate"

text \<open>
  \<open>SELECT m.*, c.cv_filename FROM matches m JOIN candidates c ON ... WHERE m.jd_id = ?
  ORDER BY m.match_score DESC\<close>: the rows of the job whose candidate exists, each
  with the candidate's file name, by descending score.
\<close>

definition get_matches_for_jd :: "connection \<Rightarrow> int \<Rightarrow> (match_row \<times> string) list" where
  "get_matches_for_jd conn jd =
     sort_key (\<lambda>row. - match_score (fst row))
       (List.map_filter
          (\<lambda>m. if jd_id m = jd
                then (case candidates conn (candidate_id m) of
                        Some c \<Rightarrow> Some (m, cv_filename c)
                      | None \<Rightarrow> None)
                else None)
          (matches conn))"

text \<open>\<open>UPDATE matches SET shortlist_status = ? WHERE match_id = ?\<close>, which succeeds.\<close>

definition update_shortlist_status :: "connection \<Rightarrow> int \<Rightarrow> bool \<Rightarrow> connection \<times> bool" where
  "update_shortlist_status conn mid status =
     (conn\<lparr>matches :=
        map (\<lambda>m. if match_id m = mid then m\<lparr>shortlist_status := status\<rparr> else m)
          (matches conn)\<rparr>,
      True)"

section \<open>matching\_agent.py: \<open>calculate_match_score\<close>\<close>

text \<open>
  \<open>MATCHING_WEIGHTS\<close> is read from the configuration when the module is loaded and is
  a parameter of the model; \<open>DEFAULT_WEIGHTS\<close> is the dictionary of the source.
\<close>

type_synonym weights = "string \<rightharpoonup> rat"

definition DEFAULT_WEIGHTS :: weights where
  "DEFAULT_WEIGHTS =
     [''skills'' \<mapsto> rnd64 (4/10), ''experience'' \<mapsto> 1/4, ''education'' \<mapsto> 1/4,
      ''requirements'' \<mapsto> rnd64 (1/10)]"

definition weights_get :: "weights \<Rightarrow> string \<Rightarrow> rat \<Rightarrow> rat" where
  "weights_get ws key dflt = (case ws key of Some v \<Rightarrow> v | None \<Rightarrow> dflt)"

text \<open>
  The second component of the result: the error dictionary with the keys \<open>error\<close>,
  \<open>jd_error\<close> and \<open>cv_error\<close> (the last two optional), or the breakdown with the
  keys \<open>skills_score\<close>, \<open>experience_score\<close>, \<open>education_score\<close>,
  \<open>requirements_score\<close> and \<open>weights_used\<close>, in this order.
\<close>

datatype match_details =
    Error_details string "string option" "string option"
  | Score_details rat rat rat rat weights

definition type_name :: "json_value option \<Rightarrow> string" where
  "type_name v = (case v of None \<Rightarrow> ''NoneType'' | Some (Dict d) \<Rightarrow> ''dict'' | Some (Other t) \<Rightarrow> t)"

text \<open>\<open>isinstance(v, dict)\<close> and the dictionary built when it fails on either side.\<close>

definition is_dict :: "json_value option \<Rightarrow> bool" where
  "is_dict v = (case v of Some (Dict d) \<Rightarrow> True | _ \<Rightarrow> False)"

definition invalid_json :: "json_value option \<Rightarrow> json_value option \<Rightarrow> match_details" where
  "invalid_json jd_data cv_data =
     Error_details ''Invalid JSON data structure''
       (if is_dict jd_data then None
        else Some (''Invalid JD JSON (Type: '' @ type_name jd_data @ '')''))
       (if is_dict cv_data then None
        else Some (''Invalid CV JSON (Type: '' @ type_name cv_data @ '')''))"

definition weighted_overall :: "weights \<Rightarrow> rat \<Rightarrow> rat \<Rightarrow> rat \<Rightarrow> rat \<Rightarrow> rat" where
  "weighted_overall ws skill_score experience_score education_score requirements_score =
     (let overall_score =
            fadd (fadd (fadd (fmul skill_score (weights_get ws ''skills'' (rnd64 (4/10))))
                             (fmul experience_score (weights_get ws ''experience'' (1/4))))
                       (fmul education_score (weights_get ws ''education'' (1/4))))
                 (fmul requirements_score (weights_get ws ''requirements'' (rnd64 (1/10))))
      in max 0 (min 1 overall_score))"

text \<open>
  Steps 4 to 6 of \<open>calculate_match_score\<close>, on the two dictionaries: the four scorers in
  the order of the source, the weighted sum and the breakdown. An exception of a scorer
  leaves the function. The float that \<open>calculate_experience_match\<close> returns is finite
  (lemma \<open>experience_finite\<close>) and enters the sum as the rational it denotes.
\<close>

definition score_pair :: "weights \<Rightarrow> py_dict \<Rightarrow> py_dict \<Rightarrow> py_error + (rat option \<times> match_details)" where
  "score_pair ws jd_data cv_data =
     bind_err (calculate_skill_match jd_data cv_data) (\<lambda>skill_score.
     bind_err (calculate_experience_match (required_experience_years jd_data)
                 (total_experience_years cv_data)) (\<lambda>experience_float.
     let experience_score = finite_value experience_float;
         education_score =
           calculate_education_match (required_education jd_data) (Some (education cv_data))
     in
     bind_err (check_essential_requirements jd_data cv_data) (\<lambda>requirements_score.
     let overall_score =
           weighted_overall ws skill_score experience_score education_score requirements_score;
         match_details =
           Score_details (round3 skill_score) (round3 experience_score)
             (round3 education_score) (round3 requirements_score) ws
     in Inr (Some overall_score, match_details))))"

text \<open>
  Steps 1 to 3: the two rows, the two decoded columns, the test of their types. An
  exception that \<open>safe_json_loads\<close> lets through leaves the function, the job's
  column being decoded first.
\<close>

definition calculate_match_score ::
  "(string \<Rightarrow> py_error + json_value) \<Rightarrow> weights \<Rightarrow> int \<Rightarrow> int \<Rightarrow> connection
     \<Rightarrow> py_error + (rat option \<times> match_details)" where
  "calculate_match_score loads ws jd candidate conn =
     (case get_jd conn jd of
        None \<Rightarrow> Inr (None, Error_details ''Missing DB row data'' None None)
      | Some the_jd_row \<Rightarrow>
          (case get_candidate conn candidate of
             None \<Rightarrow> Inr (None, Error_details ''Missing DB row data'' None None)
           | Some the_candidate_row \<Rightarrow>
               bind_err (safe_json_loads loads (summary_json the_jd_row)) (\<lambda>jd_data.
               bind_err (safe_json_loads loads (extracted_data_json the_candidate_row))
                 (\<lambda>cv_data.
               case jd_data of
                 Some (Dict jd_dict) \<Rightarrow>
                   (case cv_data of
                      Some (Dict cv_dict) \<Rightarrow> score_pair ws jd_dict cv_dict
                    | _ \<Rightarrow> Inr (Some 0, invalid_json jd_data cv_data))
               | _ \<Rightarrow> Inr (Some 0, invalid_json jd_data cv_data)))))"

text \<open>The dictionary \<open>{}\<close>: every \<open>.get\<close> yields its default.\<close>

definition empty_dict :: py_dict where
  "empty_dict =
     \<lparr>required_skills = [], preferred_skills = [], domain_expertise = [], soft_skills = [],
      essential_requirements = [], required_education = None,
      required_experience_years = None, skills = [], certifications = [], education = [],
      total_experience_years = None\<rparr>"

text \<open>
  The end-to-end scenario of the specification: the two records, a store that holds
  them under the identifier 1, and a decoder that yields them.
\<close>

definition scenario_jd :: py_dict where
  "scenario_jd =
     empty_dict\<lparr>required_skills := [''python'', ''sql''],
       required_education := Some ''bachelor's degree'',
       required_experience_years := Some ''3 years''\<rparr>"

definition scenario_cv :: py_dict where
  "scenario_cv =
     empty_dict\<lparr>skills := [''python'', ''django''],
       education := [''bachelor of science''],
       total_experience_years := Some (PyFloat (Finite 4))\<rparr>"

definition scenario_loads :: "string \<Rightarrow> py_error + json_value" where
  "scenario_loads s =
     (if s = ''jd'' then Inr (Dict scenario_jd)
      else if s = ''cv'' then Inr (Dict scenario_cv)
      else if s = ''[]'' then Inr (Other ''list'')
      else Inl JSONDecodeError)"

definition scenario_conn :: connection where
  "scenario_conn =
     \<lparr>job_descriptions = [1 \<mapsto> \<lparr>summary_json = Some ''jd''\<rparr>],
      candidates = [1 \<mapsto> \<lparr>cv_filename = ''cv.pdf'', extracted_data_json = Some ''cv''\<rparr>,
                    2 \<mapsto> \<lparr>cv_filename = ''list.pdf'', extracted_data_json = Some ''[]''\<rparr>,
                    3 \<mapsto> \<lparr>cv_filename = ''bad.pdf'', extracted_data_json = Some ''{''\<rparr>],
      matches = []\<rparr>"

text \<open>
  A payload that \<open>json.loads\<close> does not reject with \<open>JSONDecodeError\<close>: one hundred
  thousand opening brackets, on which the decoder exceeds the recursion limit and
  raises \<open>RecursionError\<close>. The store below holds it as the record of candidate 4.
\<close>

definition deep_payload :: string where
  "deep_payload = replicate 100000 (CHR ''['')"

definition deep_loads :: "string \<Rightarrow> py_error + json_value" where
  "deep_loads s = (if s = deep_payload then Inl RecursionError else scenario_loads s)"

definition deep_conn :: connection where
  "deep_conn =
     scenario_conn\<lparr>candidates :=
       (candidates scenario_conn)
         (4 \<mapsto> \<lparr>cv_filename = ''deep.pdf'', extracted_data_json = Some deep_payload\<rparr>)\<rparr>"

section \<open>shortlisting\_agent.py\<close>

text \<open>
  \<open>SHORTLISTING_THRESHOLD\<close> is read from the configuration when the module is loaded
  and is a parameter of the model. An entry of the returned list is the dictionary
  with the keys \<open>candidate_id\<close>, \<open>cv_filename\<close> and \<open>match_score\<close>.
\<close>

datatype shortlisted =
  Shortlisted (sl_candidate_id: int) (sl_cv_filename: string) (sl_match_score: rat)

text \<open>The body of the loop \<open>for match_row in all_matches\<close>.\<close>

definition shortlist_step ::
  "rat \<Rightarrow> match_row \<times> string \<Rightarrow> connection \<times> shortlisted list
     \<Rightarrow> connection \<times> shortlisted list" where
  "shortlist_step threshold row st =
     (let conn = fst st; shortlisted_candidates = snd st;
          the_match_id = match_id (fst row);
          the_candidate_id = candidate_id (fst row);
          score = match_score (fst row);
          the_cv_filename = snd row;
          status = (score \<ge> threshold);
          shortlisted_candidates' =
            (if score \<ge> threshold
             then shortlisted_candidates
                    @ [Shortlisted the_candidate_id the_cv_filename (round3 score)]
             else shortlisted_candidates);
          conn' = fst (update_shortlist_status conn the_match_id status)
      in (conn', shortlisted_candidates'))"

definition shortlist_candidates_for_jd ::
  "rat \<Rightarrow> int \<Rightarrow> connection \<Rightarrow> connection \<times> shortlisted list" where
  "shortlist_candidates_for_jd threshold jd conn =
     (let all_matches = get_matches_for_jd conn jd
      in if all_matches = [] then (conn, [])
         else fold (shortlist_step threshold) all_matches (conn, []))"

text \<open>
  What the specification asks of a run, written from its words: every row of the job
  that the query returns has its flag rewritten to \<open>score \<ge> threshold\<close>, whatever it
  was, and nothing else changes.
\<close>

definition overwrite_decisions :: "rat \<Rightarrow> int \<Rightarrow> connection \<Rightarrow> connection" where
  "overwrite_decisions threshold jd conn =
     conn\<lparr>matches :=
       map (\<lambda>m. if jd_id m = jd \<and> candidates conn (candidate_id m) \<noteq> None
                then m\<lparr>shortlist_status := threshold \<le> match_score m\<rparr> else m)
         (matches conn)\<rparr>"

text \<open>
  Two abbreviations for the proofs about the loop: the flag that the rows visited so
  far leave on a row of the table, and the entry appended for a row.
\<close>

definition decide :: "rat \<Rightarrow> (match_row \<times> string) list \<Rightarrow> match_row \<Rightarrow> match_row" where
  "decide threshold rows m =
     (case map_of (map (\<lambda>row. (match_id (fst row), threshold \<le> match_score (fst row))) rows)
             (match_id m) of
        Some status \<Rightarrow> m\<lparr>shortlist_status := status\<rparr>
      | None \<Rightarrow> m)"

definition entry :: "match_row \<times> string \<Rightarrow> shortlisted" where
  "entry row = Shortlisted (candidate_id (fst row)) (snd row) (round3 (match_score (fst row)))"

text \<open>A store with four scored pairs, three of them of job 1.\<close>

definition scored_conn :: connection where
  "scored_conn =
     scenario_conn\<lparr>matches :=
       [\<lparr>match_id = 1, jd_id = 1, candidate_id = 1, match_score = 13/16,
          shortlist_status = False\<rparr>,
        \<lparr>match_id = 2, jd_id = 1, candidate_id = 2, match_score = 5/8,
          shortlist_status = True\<rparr>,
        \<lparr>match_id = 3, jd_id = 2, candidate_id = 1, match_score = 7/8,
          shortlist_status = False\<rparr>,
        \<lparr>match_id = 4, jd_id = 1, candidate_id = 3, match_score = 5/16,
          shortlist_status = True\<rparr>]\<rparr>"

section \<open>Properties of the sets and of \<open>expand_skills\<close>\<close>

lemma set_py_add: "set (py_add s x) = insert x (set s)"
  by (auto simp: py_add_def)

lemma distinct_py_add: "distinct s \<Longrightarrow> distinct (py_add s x)"
  by (simp add: py_add_def)

lemma set_py_update: "set (py_update s xs) = set s \<union> set xs"
  unfolding py_update_def
  by (induction xs arbitrary: s) (auto simp: set_py_add)

lemma distinct_py_update: "distinct s \<Longrightarrow> distinct (py_update s xs)"
  unfolding py_update_def
  by (induction xs arbitrary: s) (auto simp: distinct_py_add)

lemma set_items_loop:
  "set (fold (\<lambda>(key, value_list) acc. if skill \<in> set value_list then py_add acc key else acc)
          items acc0)
   = set acc0 \<union> {key. \<exists>value_list. (key, value_list) \<in> set items \<and> skill \<in> set value_list}"
  by (induction items arbitrary: acc0) (auto simp: set_py_add split: if_splits)

lemma set_expand_one:
  "set (expand_one synonyms skill expanded) =
     set expanded
     \<union> (case map_of synonyms skill of Some value_list \<Rightarrow> set value_list | None \<Rightarrow> {})
     \<union> {key. \<exists>value_list. (key, value_list) \<in> set synonyms \<and> skill \<in> set value_list}"
  by (auto simp: expand_one_def set_items_loop set_py_update split: option.splits)

lemma set_fold_expand_one:
  "set (fold (expand_one synonyms) todo expanded) =
     set expanded
     \<union> {m. \<exists>s \<in> set todo. \<exists>value_list. map_of synonyms s = Some value_list \<and> m \<in> set value_list}
     \<union> {key. \<exists>value_list. (key, value_list) \<in> set synonyms \<and> (\<exists>s \<in> set todo. s \<in> set value_list)}"
proof (induction todo arbitrary: expanded)
  case Nil
  show ?case by simp
next
  case (Cons skill todo)
  show ?case
    unfolding fold_simps Cons.IH set_expand_one
    by (auto split: option.splits)
qed

text \<open>The lists that stand for sets stay free of duplicates.\<close>

lemma distinct_py_set: "distinct (py_set xs)"
  by (simp add: py_set_def)

lemma distinct_py_union: "distinct a \<Longrightarrow> distinct (py_union a b)"
  by (simp add: py_union_def distinct_py_update)

lemma distinct_py_intersection: "distinct a \<Longrightarrow> distinct (py_intersection a b)"
  by (simp add: py_intersection_def)

lemma set_py_intersection: "set (py_intersection a b) = set a \<inter> set b"
  by (auto simp: py_intersection_def)

lemma distinct_items_loop:
  "distinct acc0 \<Longrightarrow>
   distinct (fold (\<lambda>(key, value_list) acc. if skill \<in> set value_list then py_add acc key else acc)
          items acc0)"
  by (induction items arbitrary: acc0) (auto simp: distinct_py_add)

lemma distinct_expand_one: "distinct expanded \<Longrightarrow> distinct (expand_one synonyms skill expanded)"
  by (auto simp: expand_one_def distinct_items_loop distinct_py_update split: option.splits)

lemma distinct_fold_expand_one:
  "distinct expanded \<Longrightarrow> distinct (fold (expand_one synonyms) todo expanded)"
  by (induction todo arbitrary: expanded) (simp_all add: distinct_expand_one)

lemma distinct_expand_skills:
  "distinct skill_set \<Longrightarrow> distinct (expand_skills skill_set synonyms)"
  by (simp add: expand_skills_def distinct_fold_expand_one)

text \<open>
  C7. \<open>expand_skills\<close> of the empty set is the empty set; otherwise the result is
  exactly the given terms, plus the member list of every term that is a key of the
  table, plus every key whose member list contains a term: one hop in each direction
  and nothing more. With the static table, expanding \<open>{"sql"}\<close> gives
  \<open>{"sql", "databases"}\<close>: it contains \<open>"databases"\<close> and does not go on to the
  other members of that category such as \<open>"mysql"\<close>; expanding \<open>{"databases"}\<close>
  contains \<open>"sql"\<close>.
\<close>

theorem expand_skills_one_hop:
  "expand_skills [] synonyms = []
   \<and> set (expand_skills skill_set synonyms) =
       set skill_set
       \<union> {m. \<exists>s \<in> set skill_set. \<exists>value_list.
              map_of synonyms s = Some value_list \<and> m \<in> set value_list}
       \<union> {key. \<exists>value_list. (key, value_list) \<in> set synonyms
              \<and> (\<exists>s \<in> set skill_set. s \<in> set value_list)}
   \<and> set (expand_skills [''sql''] SKILL_SYNONYMS) = {''sql'', ''databases''}
   \<and> ''sql'' \<in> set (expand_skills [''databases''] SKILL_SYNONYMS)"
proof -
  have empty: "expand_skills [] synonyms = []"
    by (simp add: expand_skills_def)
  have one_hop: "set (expand_skills skill_set synonyms) =
     set skill_set
     \<union> {m. \<exists>s \<in> set skill_set. \<exists>value_list.
            map_of synonyms s = Some value_list \<and> m \<in> set value_list}
     \<union> {key. \<exists>value_list. (key, value_list) \<in> set synonyms
            \<and> (\<exists>s \<in> set skill_set. s \<in> set value_list)}"
    by (cases "skill_set = []") (simp_all add: expand_skills_def set_fold_expand_one)
  have sql: "set (expand_skills [''sql''] SKILL_SYNONYMS) = {''sql'', ''databases''}"
    by code_simp
  have databases: "''sql'' \<in> set (expand_skills [''databases''] SKILL_SYNONYMS)"
    by code_simp
  from empty one_hop sql databases show ?thesis by blast
qed

section \<open>Properties of the float operations\<close>

lemma round_half_even_ge: "of_int n \<le> y \<Longrightarrow> n \<le> round_half_even y"
  unfolding round_half_even_def Let_def
  by (auto simp: le_floor_iff) (smt (verit) le_floor_iff)+

lemma round_half_even_le:
  assumes "y \<le> of_int n"
  shows "round_half_even y \<le> n"
proof -
  have f: "\<lfloor>y\<rfloor> \<le> n" using assms by (simp add: floor_le_iff)
  show ?thesis
  proof (cases "y - of_int \<lfloor>y\<rfloor> < 1/2")
    case True
    then show ?thesis using f by (simp add: round_half_even_def Let_def)
  next
    case False
    then have "of_int \<lfloor>y\<rfloor> + 1/2 \<le> y" by simp
    with assms have "(of_int \<lfloor>y\<rfloor> :: rat) < of_int n" by linarith
    then have "\<lfloor>y\<rfloor> < n" by simp
    then show ?thesis by (auto simp add: round_half_even_def Let_def)
  qed
qed

lemma two_powi_diff:
  assumes "bp \<ge> 1" "bq \<ge> 0"
  shows "(2::rat) powi (bp - bq - 1) = 2 ^ nat (bp - 1) / 2 ^ nat bq"
proof -
  have "(2::rat) powi (bp - bq - 1) = 2 powi ((bp - 1) - bq)" by (simp add: algebra_simps)
  also have "\<dots> = 2 powi (bp - 1) / 2 powi bq" by (rule power_int_diff) simp
  also have "\<dots> = 2 ^ nat (bp - 1) / 2 ^ nat bq" using assms by (simp add: power_int_def)
  finally show ?thesis .
qed

lemma ilog2_le:
  assumes "0 < x"
  shows "2 powi (ilog2 x) \<le> x"
proof -
  obtain p q where pq: "quotient_of x = (p, q)" by (cases "quotient_of x")
  then have q: "0 < q" and x: "x = of_int p / of_int q"
    using quotient_of_denom_pos quotient_of_div by blast+
  from assms x q have p: "0 < p"
    by (simp add: zero_less_divide_iff)
  let ?e0 = "bitlen p - bitlen q"
  have bp: "1 \<le> bitlen p" using p bitlen_eq_zero_iff[of p] bitlen_nonneg[of p] by linarith
  have bq: "0 \<le> bitlen q" by (rule bitlen_nonneg)
  have "(2::int) ^ nat (bitlen p - 1) \<le> p" using bitlen_bounds[OF p] by simp
  then have lo: "(2::rat) ^ nat (bitlen p - 1) \<le> of_int p"
    by (metis of_int_le_iff of_int_numeral of_int_power)
  have "q < 2 ^ nat (bitlen q)" using bitlen_bounds[OF q] by simp
  then have "q \<le> 2 ^ nat (bitlen q)" by simp
  then have hi: "of_int q \<le> (2::rat) ^ nat (bitlen q)"
    by (metis of_int_le_iff of_int_numeral of_int_power)
  have "(2::rat) ^ nat (bitlen p - 1) / 2 ^ nat (bitlen q) \<le> of_int p / of_int q"
    using q lo hi by (simp add: divide_mono)
  then have "2 powi (?e0 - 1) \<le> x"
    using two_powi_diff[OF bp bq] x by simp
  then show ?thesis
    by (auto simp: ilog2_def pq Let_def)
qed

lemma ilog2_less:
  assumes "0 < x"
  shows "x < 2 powi (ilog2 x + 1)"
proof -
  obtain p q where pq: "quotient_of x = (p, q)" by (cases "quotient_of x")
  then have q: "0 < q" and x: "x = of_int p / of_int q"
    using quotient_of_denom_pos quotient_of_div by blast+
  from assms x q have p: "0 < p"
    by (simp add: zero_less_divide_iff)
  let ?e0 = "bitlen p - bitlen q"
  have bq: "1 \<le> bitlen q" using q bitlen_eq_zero_iff[of q] bitlen_nonneg[of q] by linarith
  have bp: "0 \<le> bitlen p" by (rule bitlen_nonneg)
  have "p < 2 ^ nat (bitlen p)" using bitlen_bounds[OF p] by simp
  then have hi: "of_int p < (2::rat) ^ nat (bitlen p)"
    by (metis of_int_less_iff of_int_numeral of_int_power)
  have "(2::int) ^ nat (bitlen q - 1) \<le> q" using bitlen_bounds[OF q] by simp
  then have lo: "(2::rat) ^ nat (bitlen q - 1) \<le> of_int q"
    by (metis of_int_le_iff of_int_numeral of_int_power)
  have "of_int p / of_int q < (2::rat) ^ nat (bitlen p) / 2 ^ nat (bitlen q - 1)"
    using q p lo hi by (intro frac_less) simp_all
  also have "\<dots> = 2 powi (bitlen p) / 2 powi (bitlen q - 1)"
    using bp bq by (simp add: power_int_def)
  also have "\<dots> = 2 powi (bitlen p - (bitlen q - 1))"
    by (rule power_int_diff[symmetric]) simp
  finally have up: "x < 2 powi (?e0 + 1)"
    using x by (simp add: algebra_simps)
  show ?thesis
  proof (cases "2 powi ?e0 \<le> x")
    case True
    then show ?thesis using up by (simp add: ilog2_def pq Let_def)
  next
    case False
    then show ?thesis by (simp add: ilog2_def pq Let_def)
  qed
qed

lemma rnd64_nonneg:
  assumes "0 \<le> x"
  shows "0 \<le> rnd64 x"
proof (cases "x = 0")
  case True
  then show ?thesis by (simp add: rnd64_def)
next
  case False
  let ?q = "(2::rat) powi (max (ilog2 \<bar>x\<bar> - 52) (- 1074))"
  have q: "0 < ?q" by simp
  then have "of_int 0 \<le> x / ?q" using assms by simp
  then have "0 \<le> round_half_even (x / ?q)" by (rule round_half_even_ge)
  then show ?thesis using q False by (simp add: rnd64_def Let_def)
qed

lemma rnd64_nonpos:
  assumes "x \<le> 0"
  shows "rnd64 x \<le> 0"
proof (cases "x = 0")
  case True
  then show ?thesis by (simp add: rnd64_def)
next
  case False
  let ?q = "(2::rat) powi (max (ilog2 \<bar>x\<bar> - 52) (- 1074))"
  have q: "0 < ?q" by simp
  then have "x / ?q \<le> of_int 0" using assms by (simp add: divide_le_0_iff)
  then have "round_half_even (x / ?q) \<le> 0" by (rule round_half_even_le)
  then show ?thesis using q False by (simp add: rnd64_def Let_def mult_le_0_iff)
qed

lemma ilog2_nonpos:
  assumes "0 < x" "x \<le> 1"
  shows "ilog2 x \<le> 0"
proof (rule ccontr)
  assume "\<not> ilog2 x \<le> 0"
  then have "1 \<le> ilog2 x" by simp
  then have "(2::rat) powi 1 \<le> 2 powi (ilog2 x)" by (intro power_int_increasing) simp_all
  also have "\<dots> \<le> x" by (rule ilog2_le[OF assms(1)])
  finally show False using assms(2) by simp
qed

lemma quantum_inverse:
  assumes "k \<le> 0"
  shows "1 / (2::rat) powi k = of_int (2 ^ nat (- k))"
  using assms by (simp add: power_int_def field_simps)

lemma rnd64_le_1:
  assumes "x \<le> 1"
  shows "rnd64 x \<le> 1"
proof (cases "x \<le> 0")
  case True
  then have "rnd64 x \<le> 0" by (rule rnd64_nonpos)
  then show ?thesis by simp
next
  case False
  then have pos: "0 < x" by simp
  let ?k = "max (ilog2 \<bar>x\<bar> - 52) (- 1074)"
  let ?q = "(2::rat) powi ?k"
  have q: "0 < ?q" by simp
  have k: "?k \<le> 0" using ilog2_nonpos[OF pos assms] pos by simp
  have "x / ?q \<le> 1 / ?q" using assms q by (simp add: divide_right_mono)
  then have "x / ?q \<le> of_int (2 ^ nat (- ?k))" using quantum_inverse[OF k] by simp
  then have "round_half_even (x / ?q) \<le> 2 ^ nat (- ?k)" by (rule round_half_even_le)
  then have "of_int (round_half_even (x / ?q)) \<le> (of_int (2 ^ nat (- ?k)) :: rat)"
    by (simp only: of_int_le_iff)
  then have "of_int (round_half_even (x / ?q)) * ?q \<le> of_int (2 ^ nat (- ?k)) * ?q"
    using q by (simp only: mult_le_cancel_right_pos)
  also have "\<dots> = 1" using quantum_inverse[OF k] q
    by (metis less_irrefl nonzero_eq_divide_eq mult.commute)
  finally show ?thesis using pos by (simp add: rnd64_def Let_def)
qed

lemma rnd64_ge_1:
  assumes "1 \<le> x"
  shows "1 \<le> rnd64 x"
proof -
  have pos: "0 < x" using assms by simp
  let ?k = "max (ilog2 \<bar>x\<bar> - 52) (- 1074)"
  let ?q = "(2::rat) powi ?k"
  have q: "0 < ?q" by simp
  have "1 \<le> of_int (round_half_even (x / ?q)) * ?q"
  proof (cases "?k \<le> 0")
    case True
    have "1 / ?q \<le> x / ?q" using assms q by (simp add: divide_right_mono)
    then have "of_int (2 ^ nat (- ?k)) \<le> x / ?q" using quantum_inverse[OF True] by simp
    then have "2 ^ nat (- ?k) \<le> round_half_even (x / ?q)" by (rule round_half_even_ge)
    then have "(of_int (2 ^ nat (- ?k)) :: rat) \<le> of_int (round_half_even (x / ?q))"
      by (simp only: of_int_le_iff)
    then have step: "of_int (2 ^ nat (- ?k)) * ?q \<le> of_int (round_half_even (x / ?q)) * ?q"
      using q by (simp only: mult_le_cancel_right_pos)
    have unit: "of_int (2 ^ nat (- ?k)) * ?q = 1" using quantum_inverse[OF True] q
      by (metis less_irrefl nonzero_eq_divide_eq mult.commute)
    from step show ?thesis unfolding unit .
  next
    case False
    then have k: "?k = ilog2 x - 52" and kpos: "0 < ?k" using pos by simp_all
    have "?q \<le> 2 powi (ilog2 x)" unfolding k by (intro power_int_increasing) simp_all
    also have "\<dots> \<le> x" by (rule ilog2_le[OF pos])
    finally have "of_int 1 \<le> x / ?q" using q by (simp add: pos_le_divide_eq)
    then have "1 \<le> round_half_even (x / ?q)" by (rule round_half_even_ge)
    then have r: "(1::rat) \<le> of_int (round_half_even (x / ?q))" by simp
    have q1: "1 \<le> ?q" using kpos by (intro one_le_power_int) simp_all
    have "(1::rat) * 1 \<le> of_int (round_half_even (x / ?q)) * ?q"
      using r q1 by (intro mult_mono) simp_all
    then show ?thesis by (simp only: mult_1)
  qed
  then show ?thesis using pos by (simp add: rnd64_def Let_def)
qed

text \<open>
  Rounding is monotone at a double: a number at or above the double \<open>rnd64 d\<close> rounds
  to a double at or above it, and a number at or below it to one at or below it.
\<close>

lemma quantum_multiple:
  assumes "kx \<le> k"
  shows "of_int m * (2::rat) powi k = of_int (m * 2 ^ nat (k - kx)) * 2 powi kx"
proof -
  have "(2::rat) powi k = 2 powi ((k - kx) + kx)" by simp
  also have "\<dots> = 2 powi (k - kx) * 2 powi kx" by (rule power_int_add) simp
  also have "(2::rat) powi (k - kx) = of_int (2 ^ nat (k - kx))"
    using assms by (simp add: power_int_def)
  finally show ?thesis by simp
qed

lemma rnd64_ge_multiple:
  assumes "0 < x" and "max (ilog2 x - 52) (- 1074) \<le> k" and "of_int m * 2 powi k \<le> x"
  shows "of_int m * 2 powi k \<le> rnd64 x"
proof -
  let ?kx = "max (ilog2 \<bar>x\<bar> - 52) (- 1074)"
  let ?q = "(2::rat) powi ?kx"
  let ?M = "m * 2 ^ nat (k - ?kx)"
  have q: "0 < ?q" by simp
  have kx: "?kx \<le> k" using assms(1,2) by simp
  have eq: "of_int m * (2::rat) powi k = of_int ?M * ?q" by (rule quantum_multiple[OF kx])
  have "of_int ?M * ?q \<le> x" using assms(3) unfolding eq .
  then have "of_int ?M \<le> x / ?q" using q by (simp only: pos_le_divide_eq)
  then have "?M \<le> round_half_even (x / ?q)" by (rule round_half_even_ge)
  then have "(of_int ?M :: rat) \<le> of_int (round_half_even (x / ?q))" by (simp only: of_int_le_iff)
  then have "of_int ?M * ?q \<le> of_int (round_half_even (x / ?q)) * ?q"
    using q by (simp only: mult_le_cancel_right_pos)
  also have "\<dots> = rnd64 x" using assms(1) by (simp add: rnd64_def Let_def)
  finally show ?thesis unfolding eq .
qed

lemma rnd64_le_multiple:
  assumes "0 < x" and "max (ilog2 x - 52) (- 1074) \<le> k" and "x \<le> of_int m * 2 powi k"
  shows "rnd64 x \<le> of_int m * 2 powi k"
proof -
  let ?kx = "max (ilog2 \<bar>x\<bar> - 52) (- 1074)"
  let ?q = "(2::rat) powi ?kx"
  let ?M = "m * 2 ^ nat (k - ?kx)"
  have q: "0 < ?q" by simp
  have kx: "?kx \<le> k" using assms(1,2) by simp
  have eq: "of_int m * (2::rat) powi k = of_int ?M * ?q" by (rule quantum_multiple[OF kx])
  have "x \<le> of_int ?M * ?q" using assms(3) unfolding eq .
  then have "x / ?q \<le> of_int ?M" using q by (simp only: pos_divide_le_eq)
  then have "round_half_even (x / ?q) \<le> ?M" by (rule round_half_even_le)
  then have "(of_int (round_half_even (x / ?q)) :: rat) \<le> of_int ?M" by (simp only: of_int_le_iff)
  then have "of_int (round_half_even (x / ?q)) * ?q \<le> of_int ?M * ?q"
    using q by (simp only: mult_le_cancel_right_pos)
  moreover have "rnd64 x = of_int (round_half_even (x / ?q)) * ?q"
    using assms(1) by (simp add: rnd64_def Let_def)
  ultimately show ?thesis unfolding eq by simp
qed

lemma rnd64_multiple:
  assumes "0 < d"
  shows "\<exists>m. rnd64 d = of_int m * 2 powi (max (ilog2 d - 52) (- 1074))"
  using assms by (auto simp: rnd64_def Let_def)

lemma rnd64_le_power:
  assumes "0 < d" and "0 < x" and "max (ilog2 d - 52) (- 1074) < max (ilog2 x - 52) (- 1074)"
  shows "rnd64 d \<le> 2 powi (ilog2 x)" and "2 powi (ilog2 x) \<le> rnd64 x"
proof -
  from assms(3) have lt: "ilog2 d < ilog2 x" and big: "- 1074 < ilog2 x - 52" by linarith+
  have "d < 2 powi (ilog2 d + 1)" by (rule ilog2_less[OF assms(1)])
  also have "\<dots> \<le> 2 powi (ilog2 x)" using lt by (intro power_int_increasing) simp_all
  finally have "d \<le> of_int 1 * 2 powi (ilog2 x)" by simp
  moreover have "max (ilog2 d - 52) (- 1074) \<le> ilog2 x" using lt big by simp
  ultimately have "rnd64 d \<le> of_int 1 * 2 powi (ilog2 x)"
    by (intro rnd64_le_multiple[OF assms(1)])
  then show "rnd64 d \<le> 2 powi (ilog2 x)" by simp
  have "of_int 1 * 2 powi (ilog2 x) \<le> x" using ilog2_le[OF assms(2)] by simp
  moreover have "max (ilog2 x - 52) (- 1074) \<le> ilog2 x" using big by simp
  ultimately have "of_int 1 * 2 powi (ilog2 x) \<le> rnd64 x"
    by (intro rnd64_ge_multiple[OF assms(2)])
  then show "2 powi (ilog2 x) \<le> rnd64 x" by simp
qed

lemma rnd64_above:
  assumes "0 \<le> d" and "rnd64 d \<le> x"
  shows "rnd64 d \<le> rnd64 x"
proof (cases "0 < d \<and> 0 < x")
  case False
  have nn: "0 \<le> rnd64 d" by (rule rnd64_nonneg[OF assms(1)])
  then have "0 \<le> x" using assms(2) by simp
  from False consider "d = 0" | "x = 0" using assms(1) \<open>0 \<le> x\<close> by fastforce
  then show ?thesis
  proof cases
    case 1
    then show ?thesis using rnd64_nonneg[OF \<open>0 \<le> x\<close>] by (simp add: rnd64_def)
  next
    case 2
    then show ?thesis using assms(2) by (simp add: rnd64_def)
  qed
next
  case True
  then have d: "0 < d" and x: "0 < x" by simp_all
  show ?thesis
  proof (cases "max (ilog2 x - 52) (- 1074) \<le> max (ilog2 d - 52) (- 1074)")
    case True
    obtain m where m: "rnd64 d = of_int m * 2 powi (max (ilog2 d - 52) (- 1074))"
      using rnd64_multiple[OF d] by blast
    show ?thesis using rnd64_ge_multiple[OF x True] assms(2) unfolding m by blast
  next
    case False
    then have "max (ilog2 d - 52) (- 1074) < max (ilog2 x - 52) (- 1074)" by linarith
    from rnd64_le_power[OF d x this] show ?thesis by simp
  qed
qed

lemma rnd64_below:
  assumes "0 \<le> x" and "0 \<le> d" and "x \<le> rnd64 d"
  shows "rnd64 x \<le> rnd64 d"
proof (cases "0 < d \<and> 0 < x")
  case False
  then consider "d = 0" | "x = 0" using assms(1,2) by fastforce
  then show ?thesis
  proof cases
    case 1
    then have "x = 0" using assms(1,3) by (simp add: rnd64_def)
    then show ?thesis using 1 by simp
  next
    case 2
    then show ?thesis using rnd64_nonneg[OF assms(2)] by (simp add: rnd64_def)
  qed
next
  case True
  then have d: "0 < d" and x: "0 < x" by simp_all
  show ?thesis
  proof (cases "max (ilog2 x - 52) (- 1074) \<le> max (ilog2 d - 52) (- 1074)")
    case True
    obtain m where m: "rnd64 d = of_int m * 2 powi (max (ilog2 d - 52) (- 1074))"
      using rnd64_multiple[OF d] by blast
    show ?thesis using rnd64_le_multiple[OF x True] assms(3) unfolding m by blast
  next
    case False
    then have lt: "max (ilog2 d - 52) (- 1074) < max (ilog2 x - 52) (- 1074)" by linarith
    note p = rnd64_le_power[OF d x lt]
    have "2 powi (ilog2 x) \<le> x" by (rule ilog2_le[OF x])
    with p(1) assms(3) have eq: "x = 2 powi (ilog2 x)" and "x \<le> rnd64 d" by simp_all
    have "max (ilog2 x - 52) (- 1074) \<le> ilog2 x" using lt by linarith
    moreover have "x \<le> of_int 1 * 2 powi (ilog2 x)" using eq by simp
    ultimately have "rnd64 x \<le> of_int 1 * 2 powi (ilog2 x)"
      by (intro rnd64_le_multiple[OF x])
    then show ?thesis using eq assms(3) by simp
  qed
qed

section \<open>Properties of \<open>calculate_education_match\<close>\<close>

lemma jd_scan_ge:
  "(j::nat) \<le> fold (\<lambda>(degree, level) jd_level. if P degree then max jd_level level else jd_level) xs a
   \<longleftrightarrow> j \<le> a \<or> (\<exists>(d, l) \<in> set xs. P d \<and> j \<le> l)"
  by (induction xs arbitrary: a) (auto split: if_splits simp: max_def)

lemma cv_scan_ge:
  "(j::nat) \<le> fold (\<lambda>(degree, level) cv_level.
             if P degree then (if level > cv_level then level else cv_level) else cv_level) xs a
   \<longleftrightarrow> j \<le> a \<or> (\<exists>(d, l) \<in> set xs. P d \<and> j \<le> l)"
  by (induction xs arbitrary: a) (auto split: if_splits simp: max_def)

lemma jd_level_of_ge:
  "j \<le> jd_level_of s \<longleftrightarrow> j = 0 \<or> (\<exists>(d, l) \<in> set degree_hierarchy. sublist d s \<and> j \<le> l)"
  unfolding jd_level_of_def jd_scan_ge by simp

lemma cv_level_scan_ge:
  "j \<le> cv_level_scan s a \<longleftrightarrow> j \<le> a \<or> (\<exists>(d, l) \<in> set degree_hierarchy. sublist d s \<and> j \<le> l)"
  unfolding cv_level_scan_def cv_scan_ge by simp

lemma cv_fold_ge:
  "j \<le> fold (\<lambda>edu_str cv_level. cv_level_scan (lower edu_str) cv_level) cv a
   \<longleftrightarrow> j \<le> a \<or> (\<exists>e \<in> set cv. \<exists>(d, l) \<in> set degree_hierarchy. sublist d (lower e) \<and> j \<le> l)"
  by (induction cv arbitrary: a) (auto simp: cv_level_scan_ge)

lemma cv_level_of_ge:
  "j \<le> cv_level_of cv
   \<longleftrightarrow> j = 0 \<or> (\<exists>e \<in> set cv. \<exists>(d, l) \<in> set degree_hierarchy. sublist d (lower e) \<and> j \<le> l)"
  unfolding cv_level_of_def cv_fold_ge by simp

lemma jd_level_of_no_keyword:
  assumes "\<forall>(d, l) \<in> set degree_hierarchy. \<not> sublist d s"
  shows "jd_level_of s = 0"
proof -
  have "\<not> 1 \<le> jd_level_of s" unfolding jd_level_of_ge using assms by auto
  then show ?thesis by simp
qed

lemma jd_level_of_unspecified:
  "jd_level_of [] = 0" "jd_level_of ''none'' = 0" "jd_level_of ''none specified'' = 0"
  "jd_level_of ''n/a'' = 0"
  by code_simp+

lemma lower_Nil: "lower [] = []" by (simp add: lower_def)

text \<open>
  C5. When the job's string yields a level of at least 1 and the candidate's list is
  not empty, the score is 1 if the highest level found in the candidate's phrases
  reaches the job's level and 0 otherwise; nothing in between. Both levels are maxima:
  a level \<open>j\<close> is reached exactly when \<open>j = 0\<close> or some keyword of level at least
  \<open>j\<close> occurs in the string (for the candidate: in some phrase). With the requirement
  "Master's degree required" (level 3), a bachelor of science scores 0, a master of
  science 1 and a PhD in physics 1.
\<close>

theorem education_hard_threshold:
  "(1 \<le> jd_level_of (lower jd) \<and> cv \<noteq> [] \<longrightarrow>
      calculate_education_match (Some jd) (Some cv) =
        (if jd_level_of (lower jd) \<le> cv_level_of cv then 1 else 0))
   \<and> (\<forall>j. j \<le> jd_level_of s \<longleftrightarrow>
          j = 0 \<or> (\<exists>(d, l) \<in> set degree_hierarchy. sublist d s \<and> j \<le> l))
   \<and> (\<forall>j. j \<le> cv_level_of cv \<longleftrightarrow>
          j = 0 \<or> (\<exists>e \<in> set cv. \<exists>(d, l) \<in> set degree_hierarchy. sublist d (lower e) \<and> j \<le> l))
   \<and> jd_level_of (lower ''Master's degree required'') = 3
   \<and> calculate_education_match (Some ''Master's degree required'')
         (Some [''bachelor of science'']) = 0
   \<and> calculate_education_match (Some ''Master's degree required'')
         (Some [''master of science'']) = 1
   \<and> calculate_education_match (Some ''Master's degree required'')
         (Some [''phd in physics'']) = 1"
proof -
  have threshold: "calculate_education_match (Some jd) (Some cv) =
        (if jd_level_of (lower jd) \<le> cv_level_of cv then 1 else 0)"
    if "1 \<le> jd_level_of (lower jd)" "cv \<noteq> []"
  proof -
    have "jd \<noteq> []"
      using that(1) jd_level_of_unspecified(1) by (auto simp: lower_Nil)
    moreover have "lower jd \<notin> set [''none'', ''none specified'', ''n/a'']"
      using that(1) jd_level_of_unspecified by auto
    ultimately show ?thesis
      using that by (simp add: calculate_education_match_def Let_def)
  qed
  have master: "jd_level_of (lower ''Master's degree required'') = 3"
    by code_simp
  have bachelor: "calculate_education_match (Some ''Master's degree required'')
         (Some [''bachelor of science'']) = 0"
    by code_simp
  have msc: "calculate_education_match (Some ''Master's degree required'')
         (Some [''master of science'']) = 1"
    by code_simp
  have phd: "calculate_education_match (Some ''Master's degree required'')
         (Some [''phd in physics'']) = 1"
    by code_simp
  show ?thesis
  proof (intro conjI)
    show "1 \<le> jd_level_of (lower jd) \<and> cv \<noteq> [] \<longrightarrow>
      calculate_education_match (Some jd) (Some cv) =
        (if jd_level_of (lower jd) \<le> cv_level_of cv then 1 else 0)"
      using threshold by blast
    show "\<forall>j. j \<le> jd_level_of s \<longleftrightarrow>
          j = 0 \<or> (\<exists>(d, l) \<in> set degree_hierarchy. sublist d s \<and> j \<le> l)"
      by (rule allI) (rule jd_level_of_ge)
    show "\<forall>j. j \<le> cv_level_of cv \<longleftrightarrow>
          j = 0 \<or> (\<exists>e \<in> set cv. \<exists>(d, l) \<in> set degree_hierarchy. sublist d (lower e) \<and> j \<le> l)"
      by (rule allI) (rule cv_level_of_ge)
  qed (rule master bachelor msc phd)+
qed

theorem education_hard_threshold_witness:
  "1 \<le> jd_level_of (lower ''Bachelor's degree in CS'')
   \<and> cv_level_of [''diploma in nursing'', ''msc data science''] = 3
   \<and> calculate_education_match (Some ''Bachelor's degree in CS'')
        (Some [''diploma in nursing'', ''msc data science'']) = 1"
proof -
  have jd: "jd_level_of (lower ''Bachelor's degree in CS'') = 2"
    by code_simp
  have cv: "cv_level_of [''diploma in nursing'', ''msc data science''] = 3"
    by code_simp
  note threshold = education_hard_threshold
    [of "''Bachelor's degree in CS''" "[''diploma in nursing'', ''msc data science'']",
     THEN conjunct1]
  from threshold jd cv show ?thesis
    by simp
qed

text \<open>
  C3, as the code has it. The test for an empty or missing candidate list comes
  before the job's level is looked at. So for a job string in which no keyword of the
  hierarchy occurs, the score is 0.5 for every non-empty candidate list; for an empty
  or missing list it is 0.5 only when the job string is "none", "none specified" or
  "n/a" in any letter case, and 0 for every other such string longer than 3
  characters.
\<close>

theorem education_vague_requirement:
  assumes "\<forall>(d, l) \<in> set degree_hierarchy. \<not> sublist d (lower jd)"
  shows "(cv \<noteq> [] \<longrightarrow> calculate_education_match (Some jd) (Some cv) = 1/2)
       \<and> (lower jd \<in> set [''none'', ''none specified'', ''n/a''] \<longrightarrow>
            calculate_education_match (Some jd) any_cv = 1/2)
       \<and> (3 < length jd \<and> lower jd \<notin> set [''none'', ''none specified'', ''n/a''] \<longrightarrow>
            calculate_education_match (Some jd) (Some []) = 0
          \<and> calculate_education_match (Some jd) None = 0)"
  using jd_level_of_no_keyword[OF assms]
  by (auto simp: calculate_education_match_def Let_def)

theorem education_vague_requirement_witness:
  "calculate_education_match (Some ''related field'') (Some [''bachelor of science'']) = 1/2
   \<and> calculate_education_match (Some ''N/A'') None = 1/2
   \<and> calculate_education_match (Some ''related field'') (Some []) = 0
   \<and> calculate_education_match (Some ''related field'') None = 0"
proof -
  have vague: "\<forall>(d, l) \<in> set degree_hierarchy. \<not> sublist d (lower ''related field'')"
    by code_simp
  have na: "\<forall>(d, l) \<in> set degree_hierarchy. \<not> sublist d (lower ''N/A'')"
    by code_simp
  have lower_na: "lower ''N/A'' \<in> set [''none'', ''none specified'', ''n/a'']"
    by code_simp
  have other: "lower ''related field'' \<notin> set [''none'', ''none specified'', ''n/a'']"
    by code_simp
  have nonempty:
    "calculate_education_match (Some ''related field'') (Some [''bachelor of science'']) = 1/2"
    using education_vague_requirement[OF vague, of "[''bachelor of science'']"] by simp
  have unspecified: "calculate_education_match (Some ''N/A'') None = 1/2"
    using education_vague_requirement[OF na, of "[]" None] lower_na by blast
  have empty: "calculate_education_match (Some ''related field'') (Some []) = 0
     \<and> calculate_education_match (Some ''related field'') None = 0"
    using education_vague_requirement[OF vague, of "[]"] other by simp
  from nonempty unspecified empty show ?thesis by blast
qed

text \<open>
  The claim as stated fails: "related field" has no keyword (its level is 0) and
  more than 3 characters, and an empty candidate list scores 0, not 0.5.
\<close>

theorem education_vague_requirement_counterexample:
  "jd_level_of (lower ''related field'') = 0
   \<and> 3 < length ''related field''
   \<and> calculate_education_match (Some ''related field'') (Some []) = 0
   \<and> calculate_education_match (Some ''related field'') (Some []) \<noteq> 1/2"
  by code_simp

section \<open>Properties of \<open>calculate_experience_match\<close>\<close>

text \<open>
  The overflow threshold as a numeral, for evaluation.
\<close>

lemma overflow_threshold_code [code]:
  "overflow_threshold =
     179769313486231580793728971405303415079934132710037826936173778980444968292764750946649017977587207096330286416692887910946555547851940402630657488671505820681908902000708383676273854845817711531764475730270069855571366959622842914819860834936475292719074168444365510704342711559699508093042880177904174497792"
  by (simp add: overflow_threshold_def)

lemma overflow_threshold_gt: "2 < overflow_threshold"
  by (simp add: overflow_threshold_def)

lemma to_float_small: "\<bar>x\<bar> \<le> 2 \<Longrightarrow> to_float x = Finite (rnd64 x)"
  using overflow_threshold_gt by (auto simp: to_float_def)

lemma to_float_nonneg: "0 \<le> x \<Longrightarrow> to_float x = PosInf \<or> to_float x = Finite (rnd64 x)"
  using overflow_threshold_gt by (simp add: to_float_def)

lemma decimal_value_fold:
  "0 \<le> a \<Longrightarrow> list_all is_digit ds \<Longrightarrow> 0 \<le> foldl (\<lambda>a c. 10 * a + (of_char c - 48)) (a::int) ds"
proof (induction ds arbitrary: a)
  case Nil
  then show ?case by simp
next
  case (Cons c cs)
  from Cons.prems(2) have "48 \<le> (of_char c :: nat)" by (simp add: is_digit_def Let_def)
  then have "48 \<le> int (of_char c)" by linarith
  then have "(48::int) \<le> of_char c" by (simp only: of_nat_of_char)
  then have "0 \<le> 10 * a + (of_char c - 48)" using Cons.prems(1) by simp
  then show ?case using Cons.IH Cons.prems(2) by simp
qed

lemma decimal_value_nonneg: "list_all is_digit ds \<Longrightarrow> 0 \<le> decimal_value ds"
  unfolding decimal_value_def by (rule decimal_value_fold) simp_all

lemma first_number_digits:
  assumes "first_number s = Some m"
  shows "list_all is_digit (fst m)" and "list_all is_digit (snd m)"
  using assms
  by (auto simp: first_number_def Let_def list_all_iff split: list.splits if_splits
      dest: set_takeWhileD)

lemma float_of_decimal_shape:
  assumes "first_number s = Some m"
  shows "float_of_decimal m = PosInf \<or> (\<exists>dec. 0 \<le> dec \<and> float_of_decimal m = Finite (rnd64 dec))"
proof -
  let ?dec = "of_int (decimal_value (fst m)) + of_int (decimal_value (snd m)) / 10 ^ length (snd m) :: rat"
  have "0 \<le> ?dec"
    using first_number_digits[OF assms] by (simp add: decimal_value_nonneg)
  from to_float_nonneg[OF this] show ?thesis
    unfolding float_of_decimal_def using \<open>0 \<le> ?dec\<close> by blast
qed

lemma parse_experience_years_shape:
  assumes "parse_experience_years jd = Some j"
  shows "j = PosInf \<or> (\<exists>dec. 0 \<le> dec \<and> j = Finite (rnd64 dec))"
  using assms float_of_decimal_shape
  by (auto simp: parse_experience_years_def split: option.splits if_splits)

lemma experience_parsed:
  assumes "parse_experience_years jd = Some j"
  shows "calculate_experience_match jd (Some c) =
     (if float_lt (exact c) (Finite 0) then Inr (Finite 0)
      else if float_le j (exact c) then
        bind_err (number_sub c j) (\<lambda>difference.
          Inr (py_min (Finite 1) (float_add (Finite 1)
                 (py_min (Finite (rnd64 (2/10))) (float_mul difference (Finite (rnd64 (5/100))))))))
      else bind_err (number_truediv c j) (\<lambda>partial_score. Inr (py_max (Finite 0) partial_score)))"
  using assms by (simp add: calculate_experience_match_def Let_def)

lemma step_positive: "0 < rnd64 (5/100)"
  by code_simp

lemma bonus_finite:
  assumes "difference = NaN \<or> difference = PosInf \<or> (\<exists>y. 0 \<le> y \<and> difference = Finite y)"
  shows "\<exists>b. 0 \<le> b \<and> b \<le> 1
           \<and> py_min (Finite (rnd64 (2/10))) (float_mul difference (Finite (rnd64 (5/100)))) = Finite b"
proof -
  have lo: "0 \<le> rnd64 (2/10)" by (intro rnd64_nonneg) simp
  have hi: "rnd64 (2/10) \<le> 1" by (intro rnd64_le_1) simp
  from assms consider "difference = NaN" | "difference = PosInf"
    | y where "0 \<le> y" "difference = Finite y" by blast
  then show ?thesis
  proof cases
    case 1
    then show ?thesis using lo hi by (simp add: py_min_def)
  next
    case 2
    then show ?thesis using lo hi step_positive by (simp add: py_min_def)
  next
    case 3
    have nn: "0 \<le> y * rnd64 (5/100)" using 3(1) step_positive by simp
    from to_float_nonneg[OF nn] show ?thesis
    proof
      assume "to_float (y * rnd64 (5/100)) = PosInf"
      then show ?thesis using 3 lo hi by (simp add: py_min_def)
    next
      assume "to_float (y * rnd64 (5/100)) = Finite (rnd64 (y * rnd64 (5/100)))"
      moreover have "0 \<le> rnd64 (y * rnd64 (5/100))" by (rule rnd64_nonneg[OF nn])
      ultimately show ?thesis using 3 lo hi by (auto simp: py_min_def)
    qed
  qed
qed

lemma capped_score:
  assumes "0 \<le> b" and "b \<le> 1"
  shows "py_min (Finite 1) (float_add (Finite 1) (Finite b)) = Finite 1"
proof -
  have "to_float (1 + b) = Finite (rnd64 (1 + b))" using assms by (intro to_float_small) simp
  moreover have "1 \<le> rnd64 (1 + b)" using assms by (intro rnd64_ge_1) simp
  ultimately show ?thesis by (simp add: py_min_def)
qed

lemma capped_bonus:
  assumes "difference = NaN \<or> difference = PosInf \<or> (\<exists>y. 0 \<le> y \<and> difference = Finite y)"
  shows "py_min (Finite 1) (float_add (Finite 1)
           (py_min (Finite (rnd64 (2/10))) (float_mul difference (Finite (rnd64 (5/100))))))
         = Finite 1"
proof -
  obtain b where "0 \<le> b" "b \<le> 1"
    and "py_min (Finite (rnd64 (2/10))) (float_mul difference (Finite (rnd64 (5/100)))) = Finite b"
    using bonus_finite[OF assms] by blast
  then show ?thesis using capped_score by simp
qed

lemma difference_nonneg:
  assumes "d \<le> x"
  shows "float_sub (Finite x) (Finite d) = PosInf
         \<or> (\<exists>y. 0 \<le> y \<and> float_sub (Finite x) (Finite d) = Finite y)"
proof -
  have nn: "0 \<le> x - d" using assms by simp
  have "float_sub (Finite x) (Finite d) = to_float (x - d)" by (simp add: float_sub_def)
  then show ?thesis using to_float_nonneg[OF nn] rnd64_nonneg[OF nn] by auto
qed

lemma experience_meets_float:
  assumes "parse_experience_years jd = Some (Finite d)" and "d \<le> x"
  shows "calculate_experience_match jd (Some (PyFloat (Finite x))) = Inr (Finite 1)"
proof -
  obtain dec where dec: "0 \<le> dec" "d = rnd64 dec"
    using parse_experience_years_shape[OF assms(1)] by auto
  then have d: "0 \<le> d" by (simp add: rnd64_nonneg)
  have "float_sub (Finite x) (Finite d) = NaN \<or> float_sub (Finite x) (Finite d) = PosInf
        \<or> (\<exists>y. 0 \<le> y \<and> float_sub (Finite x) (Finite d) = Finite y)"
    using difference_nonneg[OF assms(2)] by blast
  from capped_bonus[OF this] show ?thesis
    using d assms(2)
    by (simp add: experience_parsed[OF assms(1)] exact_def number_sub_def as_float_def
        bind_err_def)
qed

lemma experience_meets_inf:
  assumes "parse_experience_years jd = Some j"
  shows "calculate_experience_match jd (Some (PyFloat PosInf)) = Inr (Finite 1)"
proof -
  from parse_experience_years_shape[OF assms] show ?thesis
  proof
    assume j: "j = PosInf"
    have "float_sub PosInf PosInf = NaN" by (simp add: float_sub_def)
    then show ?thesis
      using capped_bonus[of NaN] j
      by (simp add: experience_parsed[OF assms] exact_def number_sub_def as_float_def
          bind_err_def)
  next
    assume "\<exists>dec. 0 \<le> dec \<and> j = Finite (rnd64 dec)"
    then obtain d where j: "j = Finite d" by blast
    have "float_sub PosInf (Finite d) = PosInf" by (simp add: float_sub_def)
    then show ?thesis
      using capped_bonus[of PosInf] j
      by (simp add: experience_parsed[OF assms] exact_def number_sub_def as_float_def
          bind_err_def)
  qed
qed

lemma experience_meets_int:
  assumes "parse_experience_years jd = Some (Finite d)" and "d \<le> of_int n"
    and "of_int n < overflow_threshold"
  shows "calculate_experience_match jd (Some (PyInt n)) = Inr (Finite 1)"
proof -
  obtain dec where dec: "0 \<le> dec" "d = rnd64 dec"
    using parse_experience_years_shape[OF assms(1)] by auto
  then have d: "0 \<le> d" by (simp add: rnd64_nonneg)
  then have n: "(0::rat) \<le> of_int n" using assms(2) by simp
  have conv: "as_float (PyInt n) = Inr (Finite (rnd64 (of_int n)))"
    using n assms(3) by (simp add: as_float_def float_of_int_def)
  have "d \<le> rnd64 (of_int n)" using rnd64_above[OF dec(1)] assms(2) dec(2) by simp
  then have "float_sub (Finite (rnd64 (of_int n))) (Finite d) = NaN
        \<or> float_sub (Finite (rnd64 (of_int n))) (Finite d) = PosInf
        \<or> (\<exists>y. 0 \<le> y \<and> float_sub (Finite (rnd64 (of_int n))) (Finite d) = Finite y)"
    using difference_nonneg by blast
  from capped_bonus[OF this] show ?thesis
    using n assms(2)
    by (simp add: experience_parsed[OF assms(1)] exact_def number_sub_def conv bind_err_def)
qed

lemma experience_overflow:
  assumes "parse_experience_years jd = Some j" and "overflow_threshold \<le> of_int n"
  shows "calculate_experience_match jd (Some (PyInt n)) = Inl OverflowError"
proof -
  have "(0::rat) < of_int n" using assms(2) overflow_threshold_gt by linarith
  then have "as_float (PyInt n) = Inl OverflowError" and "\<not> (of_int n :: rat) < 0"
    using assms(2) by (simp_all add: as_float_def float_of_int_def)
  then show ?thesis
    by (simp add: experience_parsed[OF assms(1)] exact_def number_sub_def number_truediv_def
        bind_err_def)
qed

lemma partial_score:
  assumes "0 \<le> a" and "a \<le> d" and "0 < d"
  shows "bind_err (float_truediv (Finite a) (Finite d))
           (\<lambda>partial_score. Inr (py_max (Finite 0) partial_score))
         = Inr (Finite (rnd64 (a / d)))"
proof -
  have q: "0 \<le> a / d" "a / d \<le> 1" using assms by simp_all
  then have "to_float (a / d) = Finite (rnd64 (a / d))" by (intro to_float_small) simp
  moreover have "0 \<le> rnd64 (a / d)" by (rule rnd64_nonneg[OF q(1)])
  ultimately show ?thesis using assms(3) by (auto simp: bind_err_def py_max_def)
qed

lemma experience_below_float:
  assumes "parse_experience_years jd = Some (Finite d)" and "0 \<le> x" and "x < d"
  shows "calculate_experience_match jd (Some (PyFloat (Finite x))) = Inr (Finite (rnd64 (x / d)))"
  using assms partial_score[of x d]
  by (simp add: experience_parsed[OF assms(1)] exact_def number_truediv_def as_float_def
      bind_err_def)

lemma experience_below_int:
  assumes "parse_experience_years jd = Some (Finite d)" and "0 \<le> n" and "of_int n < d"
    and "of_int n < overflow_threshold"
  shows "calculate_experience_match jd (Some (PyInt n)) =
           Inr (Finite (rnd64 (rnd64 (of_int n) / d)))"
proof -
  obtain dec where dec: "0 \<le> dec" "d = rnd64 dec"
    using parse_experience_years_shape[OF assms(1)] by auto
  have n: "(0::rat) \<le> of_int n" using assms(2) by simp
  have conv: "as_float (PyInt n) = Inr (Finite (rnd64 (of_int n)))"
    using n assms(4) by (simp add: as_float_def float_of_int_def)
  have le: "rnd64 (of_int n) \<le> d" using rnd64_below[OF n dec(1)] assms(3) dec(2) by simp
  have d: "0 < d" using n assms(3) by simp
  from partial_score[OF rnd64_nonneg[OF n] le d] show ?thesis
    using assms n by (simp add: experience_parsed[OF assms(1)] exact_def number_truediv_def conv
        bind_err_def)
qed

lemma experience_below_inf:
  assumes "parse_experience_years jd = Some PosInf"
  shows "0 \<le> x \<Longrightarrow> calculate_experience_match jd (Some (PyFloat (Finite x))) = Inr (Finite 0)"
    and "0 \<le> n \<Longrightarrow> of_int n < overflow_threshold
         \<Longrightarrow> calculate_experience_match jd (Some (PyInt n)) = Inr (Finite 0)"
  by (simp_all add: experience_parsed[OF assms] exact_def number_truediv_def as_float_def
      float_of_int_def bind_err_def py_max_def)

lemma experience_nan:
  assumes "parse_experience_years jd = Some j"
  shows "calculate_experience_match jd (Some (PyFloat NaN)) =
           (if j = Finite 0 then Inl ZeroDivisionError else Inr (Finite 0))"
  by (cases j)
    (simp_all add: experience_parsed[OF assms] exact_def number_truediv_def as_float_def
      bind_err_def py_max_def)

lemma experience_negative:
  assumes "parse_experience_years jd = Some j"
  shows "x < 0 \<Longrightarrow> calculate_experience_match jd (Some (PyFloat (Finite x))) = Inr (Finite 0)"
    and "n < 0 \<Longrightarrow> calculate_experience_match jd (Some (PyInt n)) = Inr (Finite 0)"
    and "calculate_experience_match jd (Some (PyFloat NegInf)) = Inr (Finite 0)"
  by (simp_all add: experience_parsed[OF assms] exact_def)

lemma experience_unparsed:
  assumes "parse_experience_years jd = None"
  shows "calculate_experience_match jd None = Inr (Finite 0)"
    and "calculate_experience_match jd (Some (PyInt n)) = Inr (Finite (if 0 < n then 1/2 else 0))"
    and "calculate_experience_match jd (Some (PyFloat (Finite x))) =
           Inr (Finite (if 0 < x then 1/2 else 0))"
    and "calculate_experience_match jd (Some (PyFloat PosInf)) = Inr (Finite (1/2))"
    and "calculate_experience_match jd (Some (PyFloat NegInf)) = Inr (Finite 0)"
    and "calculate_experience_match jd (Some (PyFloat NaN)) = Inr (Finite 0)"
  using assms by (simp_all add: calculate_experience_match_def exact_def)

lemma partial_bounded:
  assumes "0 \<le> a" and "a \<le> d" and "0 < d"
  shows "0 \<le> rnd64 (a / d)" and "rnd64 (a / d) \<le> 1"
proof -
  have q: "0 \<le> a / d" "a / d \<le> 1" using assms by simp_all
  show "0 \<le> rnd64 (a / d)" by (rule rnd64_nonneg[OF q(1)])
  show "rnd64 (a / d) \<le> 1" by (rule rnd64_le_1[OF q(2)])
qed

lemma int_rounds_below:
  assumes "parse_experience_years jd = Some (Finite d)" and "0 \<le> n" and "of_int n < d"
  shows "rnd64 (of_int n) \<le> d"
proof -
  obtain dec where dec: "0 \<le> dec" "d = rnd64 dec"
    using parse_experience_years_shape[OF assms(1)] by auto
  have n: "(0::rat) \<le> of_int n" using assms(2) by simp
  show ?thesis using rnd64_below[OF n dec(1)] assms(3) dec(2) by simp
qed

lemma experience_outcome:
  "(\<exists>x. calculate_experience_match jd cv = Inr (Finite x) \<and> 0 \<le> x \<and> x \<le> 1)
   \<or> (calculate_experience_match jd cv = Inl OverflowError
       \<and> (\<exists>n. cv = Some (PyInt n) \<and> overflow_threshold \<le> of_int n)
       \<and> parse_experience_years jd \<noteq> None)
   \<or> (calculate_experience_match jd cv = Inl ZeroDivisionError
       \<and> cv = Some (PyFloat NaN) \<and> parse_experience_years jd = Some (Finite 0))"
proof (cases "parse_experience_years jd")
  case None
  show ?thesis
  proof (cases cv)
    case cvNone: None
    then show ?thesis using experience_unparsed(1)[OF None] by simp
  next
    case (Some c)
    show ?thesis
    proof (cases c)
      case (PyInt n)
      then show ?thesis using experience_unparsed(2)[OF None, of n] Some by simp
    next
      case (PyFloat f)
      show ?thesis
      proof (cases f)
        case (Finite x)
        then show ?thesis using experience_unparsed(3)[OF None, of x] Some PyFloat by simp
      next
        case PosInf
        have "calculate_experience_match jd cv = Inr (Finite (1/2)) \<and> (0::rat) \<le> 1/2
              \<and> (1/2::rat) \<le> 1"
          using experience_unparsed(4)[OF None] Some PyFloat PosInf by simp
        then show ?thesis by blast
      next
        case NegInf
        then show ?thesis using experience_unparsed(5)[OF None] Some PyFloat by simp
      next
        case NaN
        then show ?thesis using experience_unparsed(6)[OF None] Some PyFloat by simp
      qed
    qed
  qed
next
  case (Some j)
  note j = parse_experience_years_shape[OF Some]
  show ?thesis
  proof (cases cv)
    case None
    then show ?thesis using Some by (simp add: calculate_experience_match_def)
  next
    case cv: (Some c)
    show ?thesis
    proof (cases c)
      case (PyInt n)
      consider "n < 0" | "overflow_threshold \<le> of_int n"
        | "0 \<le> n" "of_int n < overflow_threshold" "j = PosInf"
        | d where "0 \<le> n" "of_int n < overflow_threshold" "j = Finite d" "d \<le> of_int n"
        | d where "0 \<le> n" "of_int n < overflow_threshold" "j = Finite d" "of_int n < d"
        using j by fastforce
      then show ?thesis
      proof cases
        case 1
        then show ?thesis using experience_negative(2)[OF Some] cv PyInt by simp
      next
        case 2
        then show ?thesis using experience_overflow[OF Some] cv PyInt Some by simp
      next
        case 3
        then show ?thesis using experience_below_inf(2)[of jd n] Some cv PyInt by simp
      next
        case 4
        then show ?thesis using experience_meets_int[of jd d n] Some cv PyInt by simp
      next
        case 5
        then have p: "parse_experience_years jd = Some (Finite d)" using Some by simp
        have le: "rnd64 (of_int n) \<le> d" by (rule int_rounds_below[OF p 5(1) 5(4)])
        have nn: "0 \<le> rnd64 (of_int n)" using 5(1) by (intro rnd64_nonneg) simp
        have d: "0 < d" using 5(1,4) by (smt (verit) of_int_0_le_iff order_le_less_trans)
        show ?thesis
          using experience_below_int[OF p 5(1) 5(4) 5(2)] partial_bounded[OF nn le d] cv PyInt
          by simp
      qed
    next
      case (PyFloat f)
      show ?thesis
      proof (cases f)
        case (Finite x)
        consider "x < 0" | "0 \<le> x" "j = PosInf"
          | d where "j = Finite d" "d \<le> x" | d where "0 \<le> x" "j = Finite d" "x < d"
          using j by fastforce
        then show ?thesis
        proof cases
          case 1
          then show ?thesis using experience_negative(1)[OF Some] cv PyFloat Finite by simp
        next
          case 2
          then show ?thesis using experience_below_inf(1)[of jd x] Some cv PyFloat Finite by simp
        next
          case 3
          then show ?thesis using experience_meets_float[of jd d x] Some cv PyFloat Finite by simp
        next
          case 4
          then have p: "parse_experience_years jd = Some (Finite d)" using Some by simp
          have le: "x \<le> d" and d: "0 < d" using 4 by simp_all
          show ?thesis
            using experience_below_float[OF p 4(1) 4(3)] partial_bounded[OF 4(1) le d]
              cv PyFloat Finite
            by simp
        qed
      next
        case PosInf
        then show ?thesis using experience_meets_inf[OF Some] cv PyFloat by simp
      next
        case NegInf
        then show ?thesis using experience_negative(3)[OF Some] cv PyFloat by simp
      next
        case NaN
        then show ?thesis using experience_nan[OF Some] cv PyFloat Some by simp
      qed
    qed
  qed
qed

lemma experience_finite:
  assumes "calculate_experience_match jd cv = Inr r"
  shows "\<exists>x. r = Finite x \<and> 0 \<le> x \<and> x \<le> 1"
  using experience_outcome[of jd cv] assms by auto

lemma experience_bounded:
  assumes "calculate_experience_match jd cv = Inr r"
  shows "0 \<le> finite_value r \<and> finite_value r \<le> 1"
  using experience_finite[OF assms] by auto

lemma experience_raises:
  assumes "calculate_experience_match jd cv = Inl e"
  shows "(e = OverflowError \<and> (\<exists>n. cv = Some (PyInt n) \<and> overflow_threshold \<le> of_int n))
         \<or> (e = ZeroDivisionError \<and> cv = Some (PyFloat NaN)
             \<and> parse_experience_years jd = Some (Finite 0))"
  using experience_outcome[of jd cv] assms by auto

lemma first_number_None: "first_number s = None \<longleftrightarrow> list_all (\<lambda>c. \<not> is_digit c) s"
proof (cases "dropWhile (\<lambda>c. \<not> is_digit c) s")
  case Nil
  then have "list_all (\<lambda>c. \<not> is_digit c) s"
    by (simp add: dropWhile_eq_Nil_conv list_all_iff)
  moreover have "first_number s = None"
    unfolding first_number_def Nil by simp
  ultimately show ?thesis by simp
next
  case (Cons d ds)
  then have "\<not> list_all (\<lambda>c. \<not> is_digit c) s"
    by (metis dropWhile_eq_Nil_conv list.distinct(1) list_all_iff)
  moreover have "first_number s \<noteq> None"
    unfolding first_number_def Cons by (simp add: Let_def split: list.splits)
  ultimately show ?thesis by simp
qed

lemma parse_experience_years_None:
  "parse_experience_years jd = None
   \<longleftrightarrow> (case jd of None \<Rightarrow> True | Some s \<Rightarrow> list_all (\<lambda>c. \<not> is_digit c) s)"
proof (cases jd)
  case None
  then show ?thesis by (simp add: parse_experience_years_def)
next
  case (Some s)
  show ?thesis
  proof (cases "s = []")
    case True
    then show ?thesis using Some by (simp add: parse_experience_years_def)
  next
    case False
    then show ?thesis
      using Some first_number_None[of s]
      by (auto simp: parse_experience_years_def split: option.splits)
  qed
qed

text \<open>
  C4. No number parses from the job's string exactly when the string is missing or
  has no digit; then the score is 0.5 for a positive number of years, infinity
  included, and 0 otherwise, for NaN too. When the string parses to \<open>j\<close>, which is a
  float \<open>d \<ge> 0\<close> or infinity: a missing or negative number of years scores 0;
  a float of at least \<open>d\<close>, infinity included, and an \<open>int\<close> of at least \<open>d\<close> that a
  float can hold score exactly 1, the bonus having no effect; a float \<open>x\<close> with
  \<open>0 \<le> x < d\<close> scores the float quotient \<open>x / d\<close>, an \<open>int\<close> \<open>n\<close> with \<open>0 \<le> n < d\<close> the
  float quotient of the double nearest to \<open>n\<close> by \<open>d\<close>, and either scores 0 when \<open>j\<close> is
  infinity; NaN scores 0 unless \<open>d\<close> is zero. The five examples of the specification
  follow.
\<close>

theorem experience_match_cases:
  "(parse_experience_years jd = None \<longleftrightarrow>
      (case jd of None \<Rightarrow> True | Some s \<Rightarrow> list_all (\<lambda>c. \<not> is_digit c) s))
   \<and> (parse_experience_years jd = None \<longrightarrow>
        calculate_experience_match jd None = Inr (Finite 0)
      \<and> calculate_experience_match jd (Some (PyInt n)) =
          Inr (Finite (if 0 < n then 1/2 else 0))
      \<and> calculate_experience_match jd (Some (PyFloat (Finite x))) =
          Inr (Finite (if 0 < x then 1/2 else 0))
      \<and> calculate_experience_match jd (Some (PyFloat PosInf)) = Inr (Finite (1/2))
      \<and> calculate_experience_match jd (Some (PyFloat NegInf)) = Inr (Finite 0)
      \<and> calculate_experience_match jd (Some (PyFloat NaN)) = Inr (Finite 0))
   \<and> (parse_experience_years jd = Some j \<longrightarrow>
        (j = PosInf \<or> (\<exists>d. 0 \<le> d \<and> j = Finite d))
      \<and> calculate_experience_match jd None = Inr (Finite 0)
      \<and> (x < 0 \<longrightarrow>
           calculate_experience_match jd (Some (PyFloat (Finite x))) = Inr (Finite 0))
      \<and> (n < 0 \<longrightarrow> calculate_experience_match jd (Some (PyInt n)) = Inr (Finite 0))
      \<and> calculate_experience_match jd (Some (PyFloat NegInf)) = Inr (Finite 0)
      \<and> calculate_experience_match jd (Some (PyFloat PosInf)) = Inr (Finite 1)
      \<and> (j = Finite d \<and> d \<le> x \<longrightarrow>
           calculate_experience_match jd (Some (PyFloat (Finite x))) = Inr (Finite 1))
      \<and> (j = Finite d \<and> d \<le> of_int n \<and> of_int n < overflow_threshold \<longrightarrow>
           calculate_experience_match jd (Some (PyInt n)) = Inr (Finite 1))
      \<and> (j = Finite d \<and> 0 \<le> x \<and> x < d \<longrightarrow>
           calculate_experience_match jd (Some (PyFloat (Finite x))) =
             Inr (Finite (rnd64 (x / d))))
      \<and> (j = Finite d \<and> 0 \<le> n \<and> of_int n < d \<and> of_int n < overflow_threshold \<longrightarrow>
           calculate_experience_match jd (Some (PyInt n)) =
             Inr (Finite (rnd64 (rnd64 (of_int n) / d))))
      \<and> (j = PosInf \<and> 0 \<le> x \<longrightarrow>
           calculate_experience_match jd (Some (PyFloat (Finite x))) = Inr (Finite 0))
      \<and> (j = PosInf \<and> 0 \<le> n \<and> of_int n < overflow_threshold \<longrightarrow>
           calculate_experience_match jd (Some (PyInt n)) = Inr (Finite 0))
      \<and> (j \<noteq> Finite 0 \<longrightarrow>
           calculate_experience_match jd (Some (PyFloat NaN)) = Inr (Finite 0)))
   \<and> calculate_experience_match (Some ''5 years'') (Some (PyFloat (Finite (5/2)))) =
       Inr (Finite (1/2))
   \<and> calculate_experience_match (Some ''5 years'') (Some (PyInt 5)) = Inr (Finite 1)
   \<and> calculate_experience_match (Some ''5 years'') None = Inr (Finite 0)
   \<and> calculate_experience_match None (Some (PyFloat (Finite 3))) = Inr (Finite (1/2))
   \<and> calculate_experience_match None None = Inr (Finite 0)"
proof (intro conjI impI)
  show "parse_experience_years jd = None \<longleftrightarrow>
      (case jd of None \<Rightarrow> True | Some s \<Rightarrow> list_all (\<lambda>c. \<not> is_digit c) s)"
    by (rule parse_experience_years_None)
next
  assume p: "parse_experience_years jd = None"
  show "calculate_experience_match jd None = Inr (Finite 0)"
    by (rule experience_unparsed(1)[OF p])
  show "calculate_experience_match jd (Some (PyInt n)) =
          Inr (Finite (if 0 < n then 1/2 else 0))"
    by (rule experience_unparsed(2)[OF p])
  show "calculate_experience_match jd (Some (PyFloat (Finite x))) =
          Inr (Finite (if 0 < x then 1/2 else 0))"
    by (rule experience_unparsed(3)[OF p])
  show "calculate_experience_match jd (Some (PyFloat PosInf)) = Inr (Finite (1/2))"
    by (rule experience_unparsed(4)[OF p])
  show "calculate_experience_match jd (Some (PyFloat NegInf)) = Inr (Finite 0)"
    by (rule experience_unparsed(5)[OF p])
  show "calculate_experience_match jd (Some (PyFloat NaN)) = Inr (Finite 0)"
    by (rule experience_unparsed(6)[OF p])
next
  assume p: "parse_experience_years jd = Some j"
  show "j = PosInf \<or> (\<exists>d. 0 \<le> d \<and> j = Finite d)"
    using parse_experience_years_shape[OF p] rnd64_nonneg by blast
  show "calculate_experience_match jd None = Inr (Finite 0)"
    using p by (simp add: calculate_experience_match_def)
  show "calculate_experience_match jd (Some (PyFloat (Finite x))) = Inr (Finite 0)" if "x < 0"
    by (rule experience_negative(1)[OF p that])
  show "calculate_experience_match jd (Some (PyInt n)) = Inr (Finite 0)" if "n < 0"
    by (rule experience_negative(2)[OF p that])
  show "calculate_experience_match jd (Some (PyFloat NegInf)) = Inr (Finite 0)"
    by (rule experience_negative(3)[OF p])
  show "calculate_experience_match jd (Some (PyFloat PosInf)) = Inr (Finite 1)"
    by (rule experience_meets_inf[OF p])
  show "calculate_experience_match jd (Some (PyFloat (Finite x))) = Inr (Finite 1)"
    if "j = Finite d \<and> d \<le> x"
    using experience_meets_float[of jd d x] p that by simp
  show "calculate_experience_match jd (Some (PyInt n)) = Inr (Finite 1)"
    if "j = Finite d \<and> d \<le> of_int n \<and> of_int n < overflow_threshold"
    using experience_meets_int[of jd d n] p that by simp
  show "calculate_experience_match jd (Some (PyFloat (Finite x))) =
          Inr (Finite (rnd64 (x / d)))"
    if "j = Finite d \<and> 0 \<le> x \<and> x < d"
    using experience_below_float[of jd d x] p that by simp
  show "calculate_experience_match jd (Some (PyInt n)) =
          Inr (Finite (rnd64 (rnd64 (of_int n) / d)))"
    if "j = Finite d \<and> 0 \<le> n \<and> of_int n < d \<and> of_int n < overflow_threshold"
    using experience_below_int[of jd d n] p that by simp
  show "calculate_experience_match jd (Some (PyFloat (Finite x))) = Inr (Finite 0)"
    if "j = PosInf \<and> 0 \<le> x"
    using experience_below_inf(1)[of jd x] p that by simp
  show "calculate_experience_match jd (Some (PyInt n)) = Inr (Finite 0)"
    if "j = PosInf \<and> 0 \<le> n \<and> of_int n < overflow_threshold"
    using experience_below_inf(2)[of jd n] p that by simp
  show "calculate_experience_match jd (Some (PyFloat NaN)) = Inr (Finite 0)"
    if "j \<noteq> Finite 0"
    using experience_nan[OF p] that by simp
next
  show "calculate_experience_match (Some ''5 years'') (Some (PyFloat (Finite (5/2)))) =
       Inr (Finite (1/2))"
    by code_simp
  show "calculate_experience_match (Some ''5 years'') (Some (PyInt 5)) = Inr (Finite 1)"
    by code_simp
  show "calculate_experience_match (Some ''5 years'') None = Inr (Finite 0)"
    by code_simp
  show "calculate_experience_match None (Some (PyFloat (Finite 3))) = Inr (Finite (1/2))"
    by code_simp
  show "calculate_experience_match None None = Inr (Finite 0)"
    by code_simp
qed

theorem experience_match_cases_witness:
  "parse_experience_years (Some ''3-5 years'') = Some (Finite 3)
   \<and> parse_experience_years (Some ''several years'') = None
   \<and> parse_experience_years (Some ''at least 2.5 years'') = Some (Finite (5/2))
   \<and> parse_experience_years (Some (CHR ''1'' # replicate 309 (CHR ''0''))) = Some PosInf
   \<and> calculate_experience_match (Some ''several years'') (Some (PyInt 2)) = Inr (Finite (1/2))
   \<and> calculate_experience_match (Some ''3-5 years'') (Some (PyFloat (Finite (- 1)))) =
       Inr (Finite 0)
   \<and> calculate_experience_match (Some ''3-5 years'') (Some (PyInt (- 1))) = Inr (Finite 0)
   \<and> calculate_experience_match (Some ''3-5 years'') (Some (PyFloat (Finite (7/2)))) =
       Inr (Finite 1)
   \<and> calculate_experience_match (Some ''3-5 years'') (Some (PyInt 40)) = Inr (Finite 1)
   \<and> calculate_experience_match (Some ''3-5 years'') (Some (PyFloat (Finite 1))) =
       Inr (Finite (rnd64 (1 / 3)))
   \<and> calculate_experience_match (Some ''3-5 years'') (Some (PyInt 1)) =
       Inr (Finite (rnd64 (1 / 3)))
   \<and> calculate_experience_match (Some ''3-5 years'') (Some (PyFloat NaN)) = Inr (Finite 0)
   \<and> calculate_experience_match (Some ''at least 2.5 years'') (Some (PyInt 2)) =
       Inr (Finite (rnd64 (4 / 5)))
   \<and> calculate_experience_match (Some ''9007199254740994'') (Some (PyInt 9007199254740993)) =
       Inr (Finite (1 - 1 / 2 ^ 52))
   \<and> calculate_experience_match (Some (CHR ''1'' # replicate 309 (CHR ''0'')))
         (Some (PyFloat (Finite 5))) = Inr (Finite 0)
   \<and> calculate_experience_match (Some (CHR ''1'' # replicate 309 (CHR ''0'')))
         (Some (PyInt 5)) = Inr (Finite 0)"
proof -
  have p3: "parse_experience_years (Some ''3-5 years'') = Some (Finite 3)"
    by code_simp
  have p0: "parse_experience_years (Some ''several years'') = None"
    by code_simp
  have p25: "parse_experience_years (Some ''at least 2.5 years'') = Some (Finite (5/2))"
    by code_simp
  have p53: "parse_experience_years (Some ''9007199254740994'') = Some (Finite 9007199254740994)"
    by code_simp
  have pinf: "parse_experience_years (Some (CHR ''1'' # replicate 309 (CHR ''0''))) = Some PosInf"
    by code_simp
  have r1: "rnd64 1 = 1"
    by code_simp
  have r53: "rnd64 (rnd64 9007199254740993 / 9007199254740994) = 1 - 1 / 2 ^ 52"
    by code_simp
  have r2: "rnd64 2 = 2"
    by code_simp
  have small: "(40::rat) < overflow_threshold" "(1::rat) < overflow_threshold"
    "(2::rat) < overflow_threshold"
    "(5::rat) < overflow_threshold" "(9007199254740993::rat) < overflow_threshold"
    by (simp_all add: overflow_threshold_def)
  from experience_match_cases[where jd = "Some ''several years''" and n = 2]
  have a: "calculate_experience_match (Some ''several years'') (Some (PyInt 2)) =
       Inr (Finite (1/2))"
    by (simp add: p0)
  from experience_match_cases[where jd = "Some ''3-5 years''" and j = "Finite 3" and d = 3
      and x = "- 1" and n = "- 1"]
  have b: "calculate_experience_match (Some ''3-5 years'') (Some (PyFloat (Finite (- 1)))) =
       Inr (Finite 0)"
    "calculate_experience_match (Some ''3-5 years'') (Some (PyInt (- 1))) = Inr (Finite 0)"
    "calculate_experience_match (Some ''3-5 years'') (Some (PyFloat NaN)) = Inr (Finite 0)"
    by (simp_all add: p3)
  from experience_match_cases[where jd = "Some ''3-5 years''" and j = "Finite 3" and d = 3
      and x = "7/2" and n = 40]
  have c: "calculate_experience_match (Some ''3-5 years'') (Some (PyFloat (Finite (7/2)))) =
       Inr (Finite 1)"
    "calculate_experience_match (Some ''3-5 years'') (Some (PyInt 40)) = Inr (Finite 1)"
    by (simp_all add: p3 small)
  from experience_match_cases[where jd = "Some ''3-5 years''" and j = "Finite 3" and d = 3
      and x = 1 and n = 1]
  have d: "calculate_experience_match (Some ''3-5 years'') (Some (PyFloat (Finite 1))) =
       Inr (Finite (rnd64 (1 / 3)))"
    "calculate_experience_match (Some ''3-5 years'') (Some (PyInt 1)) =
       Inr (Finite (rnd64 (1 / 3)))"
    by (simp_all add: p3 small r1)
  from experience_match_cases[where jd = "Some ''at least 2.5 years''" and j = "Finite (5/2)"
      and d = "5/2" and n = 2]
  have d': "calculate_experience_match (Some ''at least 2.5 years'') (Some (PyInt 2)) =
       Inr (Finite (rnd64 (4 / 5)))"
    by (simp add: p25 small r2)
  from experience_match_cases[where jd = "Some ''9007199254740994''"
      and j = "Finite 9007199254740994" and d = 9007199254740994 and n = 9007199254740993]
  have e: "calculate_experience_match (Some ''9007199254740994'')
       (Some (PyInt 9007199254740993)) = Inr (Finite (1 - 1 / 2 ^ 52))"
    by (simp add: p53 small r53)
  from experience_match_cases[where jd = "Some (CHR ''1'' # replicate 309 (CHR ''0''))"
      and j = PosInf and x = 5 and n = 5]
  have f: "calculate_experience_match (Some (CHR ''1'' # replicate 309 (CHR ''0'')))
         (Some (PyFloat (Finite 5))) = Inr (Finite 0)"
    "calculate_experience_match (Some (CHR ''1'' # replicate 309 (CHR ''0'')))
         (Some (PyInt 5)) = Inr (Finite 0)"
    by (simp_all add: pinf small)
  from p3 p0 p25 pinf a b c d d' e f show ?thesis by simp
qed

theorem experience_match_cases_counterexample:
  "parse_experience_years (Some ''5 years'') = Some (Finite 5)
   \<and> float_le (Finite 5) (exact (PyInt (10 ^ 400)))
   \<and> calculate_experience_match (Some ''5 years'') (Some (PyInt (10 ^ 400))) = Inl OverflowError
   \<and> number_truediv (PyFloat NaN) (Finite 5) = Inr NaN
   \<and> calculate_experience_match (Some ''5 years'') (Some (PyFloat NaN)) = Inr (Finite 0)"
proof (intro conjI)
  show "parse_experience_years (Some ''5 years'') = Some (Finite 5)"
    by code_simp
  show "float_le (Finite 5) (exact (PyInt (10 ^ 400)))"
    by code_simp
  show "calculate_experience_match (Some ''5 years'') (Some (PyInt (10 ^ 400))) = Inl OverflowError"
    by code_simp
  show "number_truediv (PyFloat NaN) (Finite 5) = Inr NaN"
    by code_simp
  show "calculate_experience_match (Some ''5 years'') (Some (PyFloat NaN)) = Inr (Finite 0)"
    by code_simp
qed

section \<open>Properties of \<open>check_essential_requirements\<close>\<close>

lemma set_py_set: "set (py_set xs) = set xs"
  by (simp add: py_set_def)

lemma set_py_union: "set (py_union a b) = set a \<union> set b"
  by (simp add: py_union_def set_py_update)

lemma length_py_set: "length (py_set xs) = card (set xs)"
  by (simp add: py_set_def length_remdups_card_conv)

lemma fold_count:
  "fold (\<lambda>req met. if P req then met + 1 else met) xs (a::nat) = a + length (filter P xs)"
  by (induction xs arbitrary: a) simp_all

lemma length_filter_py_set: "length (filter P (py_set xs)) = card {x \<in> set xs. P x}"
proof -
  have "filter P (remdups xs) = remdups (filter P xs)"
    by (simp add: remdups_filter)
  then have "length (filter P (py_set xs)) = card (set (filter P xs))"
    by (simp add: py_set_def length_remdups_card_conv)
  then show ?thesis by simp
qed

lemma truediv_nonzero: "b \<noteq> 0 \<Longrightarrow> truediv a b = Inr (rnd64 (a / b))"
  by (simp add: truediv_def)

lemma lower_char_code_point:
  "of_char (lower_char c) =
     (let n = (of_char c :: nat)
      in if n \<in> {65..90} \<union> {192..214} \<union> {216..222} then n + 32 else n)"
proof -
  have "(of_char c :: nat) < 256" by simp
  then show ?thesis
    by (auto simp: lower_char_def Let_def)
qed

lemma join_space_closed_form:
  "join_space phrases =
     concat (map (\<lambda>s. s @ '' '') (butlast phrases)) @ (if phrases = [] then [] else last phrases)"
  by (induction phrases rule: join_space.induct) simp_all

lemma requirements_empty:
  assumes "essential_requirements jd_data = []"
  shows "check_essential_requirements jd_data cv_data = Inr 1"
  using assms by (simp add: check_essential_requirements_def py_set_def)

lemma requirements_quotient:
  assumes nonempty: "essential_requirements jd_data \<noteq> []"
  shows "check_essential_requirements jd_data cv_data =
          Inr (rnd64
            (of_nat (card {req \<in> set (essential_requirements jd_data).
                       lower req \<in> set (skills cv_data) \<union> set (certifications cv_data)
                       \<or> sublist (lower req) (join_space (map lower (education cv_data)))})
             / of_nat (card (set (essential_requirements jd_data)))))"
proof -
  let ?reqs = "essential_requirements jd_data"
  let ?met = "requirement_met (py_union (py_set (skills cv_data)) (py_set (certifications cv_data)))
                (join_space (map lower (education cv_data)))"
  from nonempty have ne: "py_set ?reqs \<noteq> []"
    by (simp add: py_set_def)
  have card_pos: "card (set ?reqs) \<noteq> 0"
    using nonempty by simp
  have met: "?met req \<longleftrightarrow>
      lower req \<in> set (skills cv_data) \<union> set (certifications cv_data)
      \<or> sublist (lower req) (join_space (map lower (education cv_data)))" for req
    by (simp add: requirement_met_def Let_def set_py_union set_py_set)
  have count: "fold (\<lambda>req met. if ?met req then met + 1 else met) (py_set ?reqs) 0
      = card {req \<in> set ?reqs. ?met req}"
    by (simp add: fold_count length_filter_py_set)
  have "check_essential_requirements jd_data cv_data =
      truediv (of_nat (card {req \<in> set ?reqs. ?met req})) (of_nat (card (set ?reqs)))"
    using ne by (simp add: check_essential_requirements_def Let_def count length_py_set)
  also have "\<dots> = Inr (rnd64 (of_nat (card {req \<in> set ?reqs. ?met req})
                           / of_nat (card (set ?reqs))))"
    using card_pos by (simp add: truediv_nonzero)
  finally show ?thesis
    by (simp only: met)
qed

text \<open>
  C6. With no essential requirement the score is 1 for every candidate. Otherwise it
  is the float quotient of the number of requirements met by the number of
  requirements, both counted without duplicates; a requirement is met exactly when its
  lower-cased form is a member of the candidate's skills or certifications, or occurs
  in the lower-cased education phrases joined by single spaces: every phrase but the
  last followed by a space, then the last.
\<close>

theorem essential_requirements_score:
  "(essential_requirements jd_data = [] \<longrightarrow>
      check_essential_requirements jd_data cv_data = Inr 1)
   \<and> (essential_requirements jd_data \<noteq> [] \<longrightarrow>
        check_essential_requirements jd_data cv_data =
          Inr (rnd64
            (of_nat (card {req \<in> set (essential_requirements jd_data).
                       lower req \<in> set (skills cv_data) \<union> set (certifications cv_data)
                       \<or> sublist (lower req) (join_space (map lower (education cv_data)))})
             / of_nat (card (set (essential_requirements jd_data))))))
   \<and> join_space phrases =
       concat (map (\<lambda>s. s @ '' '') (butlast phrases))
       @ (if phrases = [] then [] else last phrases)"
proof (intro conjI impI)
  assume "essential_requirements jd_data = []"
  then show "check_essential_requirements jd_data cv_data = Inr 1"
    by (rule requirements_empty)
next
  assume "essential_requirements jd_data \<noteq> []"
  then show "check_essential_requirements jd_data cv_data =
          Inr (rnd64
            (of_nat (card {req \<in> set (essential_requirements jd_data).
                       lower req \<in> set (skills cv_data) \<union> set (certifications cv_data)
                       \<or> sublist (lower req) (join_space (map lower (education cv_data)))})
             / of_nat (card (set (essential_requirements jd_data)))))"
    by (rule requirements_quotient)
next
  show "join_space phrases =
       concat (map (\<lambda>s. s @ '' '') (butlast phrases))
       @ (if phrases = [] then [] else last phrases)"
    by (rule join_space_closed_form)
qed

theorem essential_requirements_score_witness:
  "check_essential_requirements empty_dict
     (empty_dict\<lparr>skills := [''aws''],
        education := [''Bachelor of Science'', ''Master of Arts'']\<rparr>) = Inr 1
   \<and> check_essential_requirements
       (empty_dict\<lparr>essential_requirements :=
          [''Science Master'', ''sciencemaster'', ''AWS'', ''AWS'']\<rparr>)
       (empty_dict\<lparr>skills := [''aws''],
          education := [''Bachelor of Science'', ''Master of Arts'']\<rparr>)
     = Inr (rnd64 (2 / 3))
   \<and> check_essential_requirements
       (empty_dict\<lparr>essential_requirements := [CHR 0xE9 # ''cole'']\<rparr>)
       (empty_dict\<lparr>education := [CHR 0xC9 # ''cole Polytechnique'']\<rparr>)
     = Inr 1
   \<and> join_space [''bachelor of science'', ''master of arts'', ''phd''] =
       ''bachelor of science master of arts phd''"
proof -
  let ?jd = "empty_dict\<lparr>essential_requirements :=
               [''Science Master'', ''sciencemaster'', ''AWS'', ''AWS'']\<rparr>"
  let ?cv = "empty_dict\<lparr>skills := [''aws''],
               education := [''Bachelor of Science'', ''Master of Arts'']\<rparr>"
  let ?jd' = "empty_dict\<lparr>essential_requirements := [CHR 0xE9 # ''cole'']\<rparr>"
  let ?cv' = "empty_dict\<lparr>education := [CHR 0xC9 # ''cole Polytechnique'']\<rparr>"
  have none: "essential_requirements empty_dict = []"
    by (simp add: empty_dict_def)
  have some: "essential_requirements ?jd \<noteq> []" "essential_requirements ?jd' \<noteq> []"
    by simp_all
  have met: "card {req \<in> set (essential_requirements ?jd).
                lower req \<in> set (skills ?cv) \<union> set (certifications ?cv)
                \<or> sublist (lower req) (join_space (map lower (education ?cv)))} = 2"
    by code_simp
  have all: "card (set (essential_requirements ?jd)) = 3"
    by code_simp
  have met': "card {req \<in> set (essential_requirements ?jd').
                lower req \<in> set (skills ?cv') \<union> set (certifications ?cv')
                \<or> sublist (lower req) (join_space (map lower (education ?cv')))} = 1"
    by code_simp
  have all': "card (set (essential_requirements ?jd')) = 1"
    by code_simp
  have one: "rnd64 1 = 1"
    by code_simp
  have "check_essential_requirements empty_dict ?cv = Inr 1"
    using essential_requirements_score[of empty_dict ?cv "[]"] none by blast
  moreover have "check_essential_requirements ?jd ?cv = Inr (rnd64 (2 / 3))"
    using essential_requirements_score[of ?jd ?cv "[]", THEN conjunct2, THEN conjunct1] some(1)
    by (simp only: met all) simp
  moreover have "check_essential_requirements ?jd' ?cv' = Inr 1"
    using essential_requirements_score[of ?jd' ?cv' "[]", THEN conjunct2, THEN conjunct1] some(2)
    by (simp only: met' all') (simp add: one)
  moreover have "join_space [''bachelor of science'', ''master of arts'', ''phd''] =
       ''bachelor of science master of arts phd''"
    using essential_requirements_score[of empty_dict empty_dict
        "[''bachelor of science'', ''master of arts'', ''phd'']", THEN conjunct2, THEN conjunct2]
    by simp
  ultimately show ?thesis by (intro conjI)
qed

section \<open>Properties of \<open>calculate_skill_match\<close> and of the aggregate\<close>

lemma ratio_returns:
  "(if raw \<noteq> [] then truediv a (of_nat (length raw)) else Inr d) =
     Inr (if raw \<noteq> [] then rnd64 (a / of_nat (length raw)) else d)"
  by (simp add: truediv_def)

lemma bind_err_Inr: "bind_err (Inr v) f = f v"
  by (simp add: bind_err_def)

lemma bind_err_Inl: "bind_err (Inl e) f = Inl e"
  by (simp add: bind_err_def)

lemma guarded_truediv: "\<exists>r. (if b = 0 then Inr d else truediv a b) = Inr r"
  by (simp add: truediv_def)

lemma skill_match_returns: "\<exists>r. calculate_skill_match jd_data cv_data = Inr r"
  unfolding calculate_skill_match_def Let_def ratio_returns bind_err_Inr
  by (rule guarded_truediv)

lemma requirements_returns: "\<exists>r. check_essential_requirements jd_data cv_data = Inr r"
  unfolding check_essential_requirements_def Let_def
  by (simp add: truediv_def)

text \<open>
  The aggregate of two records raises exactly when \<open>calculate_experience_match\<close>
  does, and then the same exception.
\<close>

lemma score_pair_raises:
  assumes "calculate_experience_match (required_experience_years jd_data)
             (total_experience_years cv_data) = Inl e"
  shows "score_pair ws jd_data cv_data = Inl e"
proof -
  obtain s where s: "calculate_skill_match jd_data cv_data = Inr s"
    using skill_match_returns by blast
  show ?thesis
    by (simp add: score_pair_def s assms bind_err_Inr bind_err_Inl)
qed

lemma score_pair_returns:
  assumes "calculate_experience_match (required_experience_years jd_data)
             (total_experience_years cv_data) = Inr x"
  shows "\<exists>overall details. score_pair ws jd_data cv_data = Inr (Some overall, details)"
proof -
  obtain s where s: "calculate_skill_match jd_data cv_data = Inr s"
    using skill_match_returns by blast
  obtain r where r: "check_essential_requirements jd_data cv_data = Inr r"
    using requirements_returns by blast
  show ?thesis
    by (simp add: score_pair_def s assms r bind_err_Inr Let_def)
qed

text \<open>
  C10 does not hold for \<open>calculate_experience_match\<close>. The job's string "0-2 years"
  parses to 0.0. When the candidate's years are NaN, both tests that guard the
  division are false, \<open>nan < 0\<close> and \<open>nan >= 0.0\<close>, and the division by 0.0 raises
  \<open>ZeroDivisionError\<close>, which the aggregate of the two records lets through. The
  divisions of \<open>calculate_skill_match\<close> and of \<open>check_essential_requirements\<close> are
  guarded (\<open>skill_match_returns\<close>, \<open>requirements_returns\<close>), and NaN at a requirement
  of zero years is the only input on which \<open>calculate_experience_match\<close> divides by
  zero (\<open>experience_raises\<close>).
\<close>

theorem experience_division_by_zero:
  "parse_experience_years (Some ''0-2 years'') = Some (Finite 0)
   \<and> float_lt (exact (PyFloat NaN)) (Finite 0) = False
   \<and> float_le (Finite 0) (exact (PyFloat NaN)) = False
   \<and> calculate_experience_match (Some ''0-2 years'') (Some (PyFloat NaN)) = Inl ZeroDivisionError
   \<and> score_pair DEFAULT_WEIGHTS (empty_dict\<lparr>required_experience_years := Some ''0-2 years''\<rparr>)
       (empty_dict\<lparr>total_experience_years := Some (PyFloat NaN)\<rparr>) = Inl ZeroDivisionError"
proof (intro conjI)
  let ?jd = "empty_dict\<lparr>required_experience_years := Some ''0-2 years''\<rparr>"
  let ?cv = "empty_dict\<lparr>total_experience_years := Some (PyFloat NaN)\<rparr>"
  show "parse_experience_years (Some ''0-2 years'') = Some (Finite 0)"
    by code_simp
  show "float_lt (exact (PyFloat NaN)) (Finite 0) = False"
    by code_simp
  show "float_le (Finite 0) (exact (PyFloat NaN)) = False"
    by code_simp
  show raises: "calculate_experience_match (Some ''0-2 years'') (Some (PyFloat NaN)) =
      Inl ZeroDivisionError"
    by code_simp
  have "calculate_experience_match (required_experience_years ?jd) (total_experience_years ?cv) =
      Inl ZeroDivisionError"
    using raises by simp
  then show "score_pair DEFAULT_WEIGHTS ?jd ?cv = Inl ZeroDivisionError"
    by (rule score_pair_raises)
qed

lemma requirements_bounded:
  assumes "check_essential_requirements jd_data cv_data = Inr r"
  shows "0 \<le> r \<and> r \<le> 1"
proof (cases "essential_requirements jd_data = []")
  case True
  then show ?thesis
    using assms requirements_empty[of jd_data cv_data] by auto
next
  case False
  let ?reqs = "set (essential_requirements jd_data)"
  let ?met = "{req \<in> ?reqs.
       lower req \<in> set (skills cv_data) \<union> set (certifications cv_data)
       \<or> sublist (lower req) (join_space (map lower (education cv_data)))}"
  have "card ?met \<le> card ?reqs"
    by (intro card_mono) auto
  moreover have "0 < card ?reqs"
    using False by (simp add: card_gt_0_iff)
  ultimately have q: "0 \<le> (of_nat (card ?met) :: rat) / of_nat (card ?reqs)"
      "(of_nat (card ?met) :: rat) / of_nat (card ?reqs) \<le> 1"
    by simp_all
  have "r = rnd64 (of_nat (card ?met) / of_nat (card ?reqs))"
    using assms requirements_quotient[OF False, of cv_data] by simp
  then show ?thesis
    using q by (simp add: rnd64_nonneg rnd64_le_1)
qed

lemma education_bounded:
  "0 \<le> calculate_education_match jd_education_str cv_education_list
   \<and> calculate_education_match jd_education_str cv_education_list \<le> 1"
  by (simp add: calculate_education_match_def Let_def split: option.splits)

lemma overall_bounded:
  "0 \<le> weighted_overall ws s x e r \<and> weighted_overall ws s x e r \<le> 1"
  by (simp add: weighted_overall_def Let_def)

text \<open>
  C1 does not hold for \<open>calculate_skill_match\<close>. A job that requires the one skill
  "databases" has the expanded set of that category and its six members; a candidate
  who lists "sql" and "mysql" meets two of them, and two over the one raw requirement
  is 2. The other three scores and the clamped overall score are within \<open>[0, 1]\<close>
  (\<open>experience_bounded\<close>, \<open>requirements_bounded\<close>, \<open>education_bounded\<close>,
  \<open>overall_bounded\<close>), and the breakdown of the pair reports the skill score 2.
\<close>

theorem skill_match_exceeds_one:
  "calculate_skill_match (empty_dict\<lparr>required_skills := [''databases'']\<rparr>)
     (empty_dict\<lparr>skills := [''sql'', ''mysql'']\<rparr>) = Inr 2
   \<and> score_pair DEFAULT_WEIGHTS (empty_dict\<lparr>required_skills := [''databases'']\<rparr>)
       (empty_dict\<lparr>skills := [''sql'', ''mysql'']\<rparr>)
     = Inr (Some 1, Score_details 2 0 (1/2) 1 DEFAULT_WEIGHTS)"
proof -
  let ?jd = "empty_dict\<lparr>required_skills := [''databases'']\<rparr>"
  let ?cv = "empty_dict\<lparr>skills := [''sql'', ''mysql'']\<rparr>"
  have skill: "calculate_skill_match ?jd ?cv = Inr 2"
    by code_simp
  have experience: "calculate_experience_match (required_experience_years ?jd)
      (total_experience_years ?cv) = Inr (Finite 0)"
    by code_simp
  have education: "calculate_education_match (required_education ?jd)
      (Some (education ?cv)) = 1/2"
    by code_simp
  have requirements: "check_essential_requirements ?jd ?cv = Inr 1"
    by code_simp
  have overall: "weighted_overall DEFAULT_WEIGHTS 2 0 (1/2) 1 = 1"
    by code_simp
  have rounded: "round3 2 = 2" "round3 0 = 0" "round3 (1/2) = 1/2" "round3 1 = 1"
    by code_simp+
  have "score_pair DEFAULT_WEIGHTS ?jd ?cv
     = Inr (Some 1, Score_details 2 0 (1/2) 1 DEFAULT_WEIGHTS)"
    unfolding score_pair_def skill experience education requirements bind_err_Inr Let_def
      finite_value.simps overall rounded ..
  with skill show ?thesis by blast
qed

section \<open>Properties of \<open>calculate_match_score\<close>\<close>

lemma match_score_of_dicts:
  assumes "get_jd conn jd = Some jr" "get_candidate conn candidate = Some cr"
    and "safe_json_loads loads (summary_json jr) = Inr (Some (Dict jd_dict))"
    and "safe_json_loads loads (extracted_data_json cr) = Inr (Some (Dict cv_dict))"
  shows "calculate_match_score loads ws jd candidate conn = score_pair ws jd_dict cv_dict"
  using assms by (simp add: calculate_match_score_def bind_err_def)

lemma match_score_missing:
  assumes "get_jd conn jd = None \<or> get_candidate conn candidate = None"
  shows "calculate_match_score loads ws jd candidate conn =
           Inr (None, Error_details ''Missing DB row data'' None None)"
  using assms by (auto simp: calculate_match_score_def split: option.splits)

lemma match_score_invalid:
  assumes "get_jd conn jd = Some jr" "get_candidate conn candidate = Some cr"
    and "safe_json_loads loads (summary_json jr) = Inr jd_data"
    and "safe_json_loads loads (extracted_data_json cr) = Inr cv_data"
    and "\<not> is_dict jd_data \<or> \<not> is_dict cv_data"
  shows "calculate_match_score loads ws jd candidate conn =
           Inr (Some 0, invalid_json jd_data cv_data)"
  using assms
  by (auto simp: calculate_match_score_def is_dict_def bind_err_def
      split: option.splits json_value.splits)

lemma match_score_raises:
  assumes "get_jd conn jd = Some jr" "get_candidate conn candidate = Some cr"
    and "safe_json_loads loads (summary_json jr) = Inl e
         \<or> (\<exists>jd_data. safe_json_loads loads (summary_json jr) = Inr jd_data)
            \<and> safe_json_loads loads (extracted_data_json cr) = Inl e"
  shows "calculate_match_score loads ws jd candidate conn = Inl e"
  using assms by (auto simp: calculate_match_score_def bind_err_def)

text \<open>
  \<open>safe_json_loads\<close> returns \<open>None\<close> for a missing or empty string and when
  \<open>json.loads\<close> raises \<open>JSONDecodeError\<close>; it raises exactly when \<open>json.loads\<close> raises
  another exception.
\<close>

lemma safe_json_loads_cases:
  "safe_json_loads loads None = Inr None"
  "safe_json_loads loads (Some []) = Inr None"
  "s \<noteq> [] \<Longrightarrow> loads s = Inl JSONDecodeError \<Longrightarrow> safe_json_loads loads (Some s) = Inr None"
  "s \<noteq> [] \<Longrightarrow> loads s = Inr v \<Longrightarrow> safe_json_loads loads (Some s) = Inr (Some v)"
  "s \<noteq> [] \<Longrightarrow> loads s = Inl e \<Longrightarrow> e \<noteq> JSONDecodeError
     \<Longrightarrow> safe_json_loads loads (Some s) = Inl e"
  by (simp_all add: safe_json_loads_def)

lemma safe_json_loads_raises:
  "safe_json_loads loads json_string = Inl e \<longleftrightarrow>
     (\<exists>s. json_string = Some s \<and> s \<noteq> [] \<and> loads s = Inl e \<and> e \<noteq> JSONDecodeError)"
  by (auto simp: safe_json_loads_def split: option.splits sum.splits if_splits)

text \<open>
  The part of C8 that holds. When the job's row or the candidate's row is absent, the
  result is no score (\<open>None\<close>) with the error "Missing DB row data". When both rows
  exist, \<open>safe_json_loads\<close> returns on both columns, and the decoded summary or the
  decoded profile is not a dictionary (the column is empty, \<open>json.loads\<close> raises
  \<open>JSONDecodeError\<close>, or the text decodes to a value of another type), the result is
  the score 0 with the error "Invalid JSON data structure" and one entry for each side
  that is invalid, naming the type found.
\<close>

lemma match_score_failures:
  "(get_jd conn jd = None \<or> get_candidate conn candidate = None \<longrightarrow>
      calculate_match_score loads ws jd candidate conn =
        Inr (None, Error_details ''Missing DB row data'' None None))
   \<and> (get_jd conn jd = Some jr \<and> get_candidate conn candidate = Some cr
        \<and> safe_json_loads loads (summary_json jr) = Inr jd_data
        \<and> safe_json_loads loads (extracted_data_json cr) = Inr cv_data
        \<and> (\<not> is_dict jd_data \<or> \<not> is_dict cv_data) \<longrightarrow>
      calculate_match_score loads ws jd candidate conn =
        Inr (Some 0,
             Error_details ''Invalid JSON data structure''
               (if is_dict jd_data then None
                else Some (''Invalid JD JSON (Type: '' @ type_name jd_data @ '')''))
               (if is_dict cv_data then None
                else Some (''Invalid CV JSON (Type: '' @ type_name cv_data @ '')''))))
   \<and> (is_dict v \<longleftrightarrow> (\<exists>d. v = Some (Dict d)))"
proof (intro conjI impI)
  assume "get_jd conn jd = None \<or> get_candidate conn candidate = None"
  then show "calculate_match_score loads ws jd candidate conn =
        Inr (None, Error_details ''Missing DB row data'' None None)"
    by (rule match_score_missing)
next
  assume a: "get_jd conn jd = Some jr \<and> get_candidate conn candidate = Some cr
        \<and> safe_json_loads loads (summary_json jr) = Inr jd_data
        \<and> safe_json_loads loads (extracted_data_json cr) = Inr cv_data
        \<and> (\<not> is_dict jd_data \<or> \<not> is_dict cv_data)"
  then have "calculate_match_score loads ws jd candidate conn =
      Inr (Some 0, invalid_json jd_data cv_data)"
    using match_score_invalid[of conn jd jr candidate cr loads jd_data cv_data ws] by blast
  then show "calculate_match_score loads ws jd candidate conn =
        Inr (Some 0,
             Error_details ''Invalid JSON data structure''
               (if is_dict jd_data then None
                else Some (''Invalid JD JSON (Type: '' @ type_name jd_data @ '')''))
               (if is_dict cv_data then None
                else Some (''Invalid CV JSON (Type: '' @ type_name cv_data @ '')'')))"
    by (simp only: invalid_json_def)
next
  show "is_dict v \<longleftrightarrow> (\<exists>d. v = Some (Dict d))"
    by (auto simp: is_dict_def split: option.splits json_value.splits)
qed

lemma match_score_failure_examples:
  "calculate_match_score scenario_loads DEFAULT_WEIGHTS 7 1 scenario_conn =
     Inr (None, Error_details ''Missing DB row data'' None None)
   \<and> calculate_match_score scenario_loads DEFAULT_WEIGHTS 1 2 scenario_conn =
     Inr (Some 0, Error_details ''Invalid JSON data structure'' None
            (Some ''Invalid CV JSON (Type: list)''))
   \<and> calculate_match_score scenario_loads DEFAULT_WEIGHTS 1 3 scenario_conn =
     Inr (Some 0, Error_details ''Invalid JSON data structure'' None
            (Some ''Invalid CV JSON (Type: NoneType)''))"
proof -
  have jd7: "get_jd scenario_conn 7 = None"
    by (simp add: get_jd_def scenario_conn_def)
  have jd1: "get_jd scenario_conn 1 = Some \<lparr>summary_json = Some ''jd''\<rparr>"
    by (simp add: get_jd_def scenario_conn_def)
  have c2: "get_candidate scenario_conn 2 =
      Some \<lparr>cv_filename = ''list.pdf'', extracted_data_json = Some ''[]''\<rparr>"
    by (simp add: get_candidate_def scenario_conn_def)
  have c3: "get_candidate scenario_conn 3 =
      Some \<lparr>cv_filename = ''bad.pdf'', extracted_data_json = Some ''{''\<rparr>"
    by (simp add: get_candidate_def scenario_conn_def)
  have jd: "safe_json_loads scenario_loads (Some ''jd'') = Inr (Some (Dict scenario_jd))"
    by (simp add: safe_json_loads_def scenario_loads_def)
  have l: "safe_json_loads scenario_loads (Some ''[]'') = Inr (Some (Other ''list''))"
    by (simp add: safe_json_loads_def scenario_loads_def)
  have b: "safe_json_loads scenario_loads (Some ''{'') = Inr None"
    by (simp add: safe_json_loads_def scenario_loads_def)
  have missing: "calculate_match_score scenario_loads DEFAULT_WEIGHTS 7 1 scenario_conn =
     Inr (None, Error_details ''Missing DB row data'' None None)"
    using match_score_missing[of scenario_conn 7 1 scenario_loads DEFAULT_WEIGHTS] jd7
    by blast
  have list: "calculate_match_score scenario_loads DEFAULT_WEIGHTS 1 2 scenario_conn =
     Inr (Some 0, Error_details ''Invalid JSON data structure'' None
            (Some ''Invalid CV JSON (Type: list)''))"
    using match_score_invalid[of scenario_conn 1 "\<lparr>summary_json = Some ''jd''\<rparr>" 2
        "\<lparr>cv_filename = ''list.pdf'', extracted_data_json = Some ''[]''\<rparr>"
        scenario_loads "Some (Dict scenario_jd)" "Some (Other ''list'')" DEFAULT_WEIGHTS]
      jd1 c2 jd l
    by (simp add: is_dict_def type_name_def invalid_json_def)
  have bad: "calculate_match_score scenario_loads DEFAULT_WEIGHTS 1 3 scenario_conn =
     Inr (Some 0, Error_details ''Invalid JSON data structure'' None
            (Some ''Invalid CV JSON (Type: NoneType)''))"
    using match_score_invalid[of scenario_conn 1 "\<lparr>summary_json = Some ''jd''\<rparr>" 3
        "\<lparr>cv_filename = ''bad.pdf'', extracted_data_json = Some ''{''\<rparr>"
        scenario_loads "Some (Dict scenario_jd)" None DEFAULT_WEIGHTS]
      jd1 c3 jd b
    by (simp add: is_dict_def type_name_def invalid_json_def)
  from missing list bad show ?thesis by blast
qed

lemma length_deep_payload: "length deep_payload = 100000"
  by (simp add: deep_payload_def)

lemma deep_payload_distinct: "deep_payload \<noteq> []" "''jd'' \<noteq> deep_payload"
proof -
  show "deep_payload \<noteq> []" using length_deep_payload by auto
  have "length ''jd'' \<noteq> length deep_payload" by (simp add: length_deep_payload)
  then show "''jd'' \<noteq> deep_payload" by (rule contrapos_nn) simp
qed

text \<open>
  C8 does not hold for a payload on which \<open>json.loads\<close> raises another exception
  than \<open>JSONDecodeError\<close>. Both rows exist; the candidate's column holds one hundred
  thousand opening brackets, which is not the text of a JSON object; \<open>json.loads\<close>
  raises \<open>RecursionError\<close> on it, \<open>safe_json_loads\<close> catches \<open>JSONDecodeError\<close> only,
  and \<open>calculate_match_score\<close> raises \<open>RecursionError\<close> instead of returning the score
  0 with the error breakdown. The two failure kinds are told apart as the
  specification says whenever \<open>safe_json_loads\<close> returns (\<open>match_score_failures\<close>).
\<close>

theorem match_score_raises_on_payload:
  "get_jd deep_conn 1 = Some \<lparr>summary_json = Some ''jd''\<rparr>
   \<and> get_candidate deep_conn 4 =
       Some \<lparr>cv_filename = ''deep.pdf'', extracted_data_json = Some deep_payload\<rparr>
   \<and> safe_json_loads deep_loads (Some ''jd'') = Inr (Some (Dict scenario_jd))
   \<and> deep_loads deep_payload = Inl RecursionError
   \<and> safe_json_loads deep_loads (Some deep_payload) = Inl RecursionError
   \<and> calculate_match_score deep_loads DEFAULT_WEIGHTS 1 4 deep_conn = Inl RecursionError"
proof -
  have jd1: "get_jd deep_conn 1 = Some \<lparr>summary_json = Some ''jd''\<rparr>"
    by (simp add: get_jd_def deep_conn_def scenario_conn_def)
  have c4: "get_candidate deep_conn 4 =
      Some \<lparr>cv_filename = ''deep.pdf'', extracted_data_json = Some deep_payload\<rparr>"
    by (simp add: get_candidate_def deep_conn_def)
  have jd: "safe_json_loads deep_loads (Some ''jd'') = Inr (Some (Dict scenario_jd))"
    using deep_payload_distinct(2)
    by (simp add: safe_json_loads_def deep_loads_def scenario_loads_def)
  have raised: "deep_loads deep_payload = Inl RecursionError"
    by (simp add: deep_loads_def)
  have cv: "safe_json_loads deep_loads (Some deep_payload) = Inl RecursionError"
    using deep_payload_distinct(1) by (simp add: safe_json_loads_def raised)
  have "calculate_match_score deep_loads DEFAULT_WEIGHTS 1 4 deep_conn = Inl RecursionError"
    by (rule match_score_raises[OF jd1 c4]) (simp add: jd cv)
  with jd1 c4 jd raised cv show ?thesis by (intro conjI)
qed

subsection \<open>The end-to-end scenario\<close>

lemma scenario_components:
  "calculate_skill_match scenario_jd scenario_cv = Inr (1/2)"
  "calculate_education_match (required_education scenario_jd)
     (Some (education scenario_cv)) = 1"
  "calculate_experience_match (required_experience_years scenario_jd)
     (total_experience_years scenario_cv) = Inr (Finite 1)"
  "check_essential_requirements scenario_jd scenario_cv = Inr 1"
  by code_simp+

lemma scenario_score:
  "calculate_match_score scenario_loads DEFAULT_WEIGHTS 1 1 scenario_conn =
     Inr (Some (7205759403792793 / 2 ^ 53), Score_details (1/2) 1 1 1 DEFAULT_WEIGHTS)"
proof -
  have overall: "weighted_overall DEFAULT_WEIGHTS (1/2) 1 1 1 = 7205759403792793 / 2 ^ 53"
    by code_simp
  have rounded: "round3 (1/2) = 1/2" "round3 1 = 1"
    by code_simp+
  have pair: "score_pair DEFAULT_WEIGHTS scenario_jd scenario_cv =
      Inr (Some (7205759403792793 / 2 ^ 53), Score_details (1/2) 1 1 1 DEFAULT_WEIGHTS)"
    unfolding score_pair_def scenario_components bind_err_Inr Let_def finite_value.simps
      overall rounded ..
  have "calculate_match_score scenario_loads DEFAULT_WEIGHTS 1 1 scenario_conn =
      score_pair DEFAULT_WEIGHTS scenario_jd scenario_cv"
    by (rule match_score_of_dicts[where jr = "\<lparr>summary_json = Some ''jd''\<rparr>"
          and cr = "\<lparr>cv_filename = ''cv.pdf'', extracted_data_json = Some ''cv''\<rparr>"])
      (simp_all add: get_jd_def get_candidate_def scenario_conn_def safe_json_loads_def
        scenario_loads_def)
  with pair show ?thesis by simp
qed

text \<open>
  C2, as the code computes it. In the scenario the four component scores are exactly
  0.5 (skills), 1 (education), 1 (experience) and 1 (requirements). The overall score
  under the default weights is the double \<open>7205759403792793 / 2^53\<close>, printed
  \<open>0.7999999999999999\<close>: the float sum \<open>0.2 + 0.25 + 0.25 + 0.1\<close> is one
  unit in the last place below the double nearest to 0.8. It is 0.8 when rounded to
  three decimals, and the same sum in exact arithmetic is 0.8.
\<close>

theorem end_to_end_scenario:
  "calculate_skill_match scenario_jd scenario_cv = Inr (1/2)
   \<and> calculate_education_match (required_education scenario_jd)
        (Some (education scenario_cv)) = 1
   \<and> calculate_experience_match (required_experience_years scenario_jd)
        (total_experience_years scenario_cv) = Inr (Finite 1)
   \<and> check_essential_requirements scenario_jd scenario_cv = Inr 1
   \<and> calculate_match_score scenario_loads DEFAULT_WEIGHTS 1 1 scenario_conn =
       Inr (Some (7205759403792793 / 2 ^ 53), Score_details (1/2) 1 1 1 DEFAULT_WEIGHTS)
   \<and> rnd64 (8/10) - 7205759403792793 / 2 ^ 53 = 1 / 2 ^ 53
   \<and> round3 (7205759403792793 / 2 ^ 53) = rnd64 (8/10)
   \<and> (1/2) * (4/10) + 1 * (1/4) + 1 * (1/4) + 1 * (1/10) = (8/10 :: rat)"
proof -
  have ulp: "rnd64 (8/10) - 7205759403792793 / 2 ^ 53 = 1 / 2 ^ 53"
    by code_simp
  have three: "round3 (7205759403792793 / 2 ^ 53) = rnd64 (8/10)"
    by code_simp
  have exact: "(1/2) * (4/10) + 1 * (1/4) + 1 * (1/4) + 1 * (1/10) = (8/10 :: rat)"
    by simp
  from scenario_components scenario_score ulp three exact
  show ?thesis by blast
qed

text \<open>
  The overall score of the scenario is not 0.80: neither the rational \<open>4/5\<close> nor the
  double that the literal \<open>0.80\<close> denotes.
\<close>

theorem end_to_end_scenario_counterexample:
  "calculate_match_score scenario_loads DEFAULT_WEIGHTS 1 1 scenario_conn =
     Inr (Some (7205759403792793 / 2 ^ 53), Score_details (1/2) 1 1 1 DEFAULT_WEIGHTS)
   \<and> (7205759403792793 / 2 ^ 53 :: rat) \<noteq> 8/10
   \<and> (7205759403792793 / 2 ^ 53 :: rat) \<noteq> rnd64 (8/10)"
proof -
  have exact: "(7205759403792793 / 2 ^ 53 :: rat) \<noteq> 8/10"
    by simp
  have literal: "(7205759403792793 / 2 ^ 53 :: rat) \<noteq> rnd64 (8/10)"
    by code_simp
  from scenario_score exact literal show ?thesis by blast
qed

section \<open>Properties of \<open>shortlist_candidates_for_jd\<close>\<close>

text \<open>The rows a run reaches, the flag it writes and the entry it returns.\<close>

lemma map_fst_joined:
  "map fst (List.map_filter
      (\<lambda>m. if jd_id m = jd
            then (case cands (candidate_id m) of
                    Some c \<Rightarrow> Some (m, cv_filename c)
                  | None \<Rightarrow> None)
            else None) ms)
   = filter (\<lambda>m. jd_id m = jd \<and> cands (candidate_id m) \<noteq> None) ms"
  by (induction ms) (auto simp: List.map_filter_simps split: option.splits)

lemma set_map_fst_get_matches:
  "fst ` set (get_matches_for_jd conn jd) =
     {m \<in> set (matches conn). jd_id m = jd \<and> candidates conn (candidate_id m) \<noteq> None}"
proof -
  have "fst ` set (get_matches_for_jd conn jd) =
      set (map fst (List.map_filter
      (\<lambda>m. if jd_id m = jd
            then (case candidates conn (candidate_id m) of
                    Some c \<Rightarrow> Some (m, cv_filename c)
                  | None \<Rightarrow> None)
            else None) (matches conn)))"
    by (simp add: get_matches_for_jd_def)
  then show ?thesis
    unfolding map_fst_joined by auto
qed

lemma distinct_map_insort_key:
  "distinct (map g (insort_key k x xs)) \<longleftrightarrow> g x \<notin> g ` set xs \<and> distinct (map g xs)"
  by (induction xs) (auto simp: set_insort_key)

lemma distinct_map_sort_key:
  "distinct (map g (sort_key k xs)) \<longleftrightarrow> distinct (map g xs)"
  by (induction xs) (simp_all add: distinct_map_insort_key)

lemma distinct_ids_get_matches:
  assumes "distinct (map match_id (matches conn))"
  shows "distinct (map (\<lambda>row. match_id (fst row)) (get_matches_for_jd conn jd))"
proof -
  let ?rows = "List.map_filter
      (\<lambda>m. if jd_id m = jd
            then (case candidates conn (candidate_id m) of
                    Some c \<Rightarrow> Some (m, cv_filename c)
                  | None \<Rightarrow> None)
            else None) (matches conn)"
  have "map (\<lambda>row. match_id (fst row)) ?rows = map match_id (map fst ?rows)"
    by simp
  also have "\<dots> = map match_id
      (filter (\<lambda>m. jd_id m = jd \<and> candidates conn (candidate_id m) \<noteq> None) (matches conn))"
    unfolding map_fst_joined ..
  finally have "distinct (map (\<lambda>row. match_id (fst row)) ?rows)"
    using assms by (simp add: distinct_map_filter)
  then show ?thesis
    by (simp add: get_matches_for_jd_def distinct_map_sort_key)
qed

lemma fold_shortlist_step_conn:
  assumes "distinct (map (\<lambda>row. match_id (fst row)) rows)"
  shows "fst (fold (shortlist_step threshold) rows (conn, acc)) =
           conn\<lparr>matches := map (decide threshold rows) (matches conn)\<rparr>"
  using assms
proof (induction rows arbitrary: conn acc)
  case Nil
  then show ?case by (simp add: decide_def)
next
  case (Cons row rows)
  let ?u = "\<lambda>m. if match_id m = match_id (fst row)
                then m\<lparr>shortlist_status := threshold \<le> match_score (fst row)\<rparr> else m"
  have fresh: "match_id (fst row) \<notin> (\<lambda>row. match_id (fst row)) ` set rows"
    and rest: "distinct (map (\<lambda>row. match_id (fst row)) rows)"
    using Cons.prems by simp_all
  obtain acc' where step: "shortlist_step threshold row (conn, acc) =
      (conn\<lparr>matches := map ?u (matches conn)\<rparr>, acc')"
    by (simp add: shortlist_step_def Let_def update_shortlist_status_def)
  have none: "map_of (map (\<lambda>row. (match_id (fst row), threshold \<le> match_score (fst row))) rows)
      (match_id (fst row)) = None"
    using fresh by (simp add: map_of_eq_None_iff image_image)
  have "decide threshold rows (?u m) = decide threshold (row # rows) m" for m
    using none by (simp add: decide_def)
  then have "map (decide threshold rows) (map ?u (matches conn)) =
      map (decide threshold (row # rows)) (matches conn)"
    by simp
  then show ?case
    using Cons.IH[OF rest] by (simp add: step)
qed

lemma fold_shortlist_step_list:
  "snd (fold (shortlist_step threshold) rows (conn, acc)) =
     acc @ map entry (filter (\<lambda>row. threshold \<le> match_score (fst row)) rows)"
proof (induction rows arbitrary: conn acc)
  case Nil
  then show ?case by simp
next
  case (Cons row rows)
  obtain conn' where step: "shortlist_step threshold row (conn, acc) =
      (conn', if threshold \<le> match_score (fst row) then acc @ [entry row] else acc)"
    by (simp add: shortlist_step_def Let_def entry_def)
  show ?case
    by (simp add: step Cons.IH)
qed

lemma shortlist_as_fold:
  "shortlist_candidates_for_jd threshold jd conn =
     fold (shortlist_step threshold) (get_matches_for_jd conn jd) (conn, [])"
  by (simp add: shortlist_candidates_for_jd_def Let_def)

lemma decide_get_matches:
  assumes "distinct (map match_id (matches conn))" "m \<in> set (matches conn)"
  shows "decide threshold (get_matches_for_jd conn jd) m =
           (if jd_id m = jd \<and> candidates conn (candidate_id m) \<noteq> None
            then m\<lparr>shortlist_status := threshold \<le> match_score m\<rparr> else m)"
proof -
  let ?rows = "get_matches_for_jd conn jd"
  let ?flags = "map (\<lambda>row. (match_id (fst row), threshold \<le> match_score (fst row))) ?rows"
  have keys: "map fst ?flags = map (\<lambda>row. match_id (fst row)) ?rows"
    by simp
  have dist: "distinct (map fst ?flags)"
    unfolding keys using assms(1) by (rule distinct_ids_get_matches)
  have inj: "inj_on match_id (set (matches conn))"
    using assms(1) by (simp add: distinct_map)
  show ?thesis
  proof (cases "jd_id m = jd \<and> candidates conn (candidate_id m) \<noteq> None")
    case True
    then have "m \<in> fst ` set ?rows"
      using assms(2) unfolding set_map_fst_get_matches by simp
    then obtain row where row: "row \<in> set ?rows" "fst row = m" by auto
    then have "(match_id m, threshold \<le> match_score m) \<in> set ?flags" by force
    then have "map_of ?flags (match_id m) = Some (threshold \<le> match_score m)"
      using dist by (rule map_of_is_SomeI[rotated])
    then show ?thesis using True by (simp add: decide_def)
  next
    case False
    have "match_id m \<notin> fst ` set ?flags"
    proof
      assume "match_id m \<in> fst ` set ?flags"
      then obtain row where row: "row \<in> set ?rows" "match_id (fst row) = match_id m" by auto
      then have "fst row \<in> fst ` set ?rows" by simp
      then have sel: "fst row \<in> set (matches conn)" "jd_id (fst row) = jd"
          "candidates conn (candidate_id (fst row)) \<noteq> None"
        unfolding set_map_fst_get_matches by simp_all
      with inj row(2) assms(2) have "fst row = m" by (simp add: inj_on_def)
      with sel False show False by simp
    qed
    then have "map_of ?flags (match_id m) = None"
      by (simp add: map_of_eq_None_iff)
    then show ?thesis using False by (auto simp: decide_def)
  qed
qed

lemma shortlist_conn:
  assumes "distinct (map match_id (matches conn))"
  shows "fst (shortlist_candidates_for_jd threshold jd conn) =
           overwrite_decisions threshold jd conn"
proof -
  have "map (decide threshold (get_matches_for_jd conn jd)) (matches conn) =
      map (\<lambda>m. if jd_id m = jd \<and> candidates conn (candidate_id m) \<noteq> None
               then m\<lparr>shortlist_status := threshold \<le> match_score m\<rparr> else m) (matches conn)"
    by (rule map_cong[OF refl]) (rule decide_get_matches[OF assms])
  then show ?thesis
    unfolding shortlist_as_fold overwrite_decisions_def
    by (simp add: fold_shortlist_step_conn[OF distinct_ids_get_matches[OF assms]])
qed

lemma shortlist_list:
  "snd (shortlist_candidates_for_jd threshold jd conn) =
     map entry (filter (\<lambda>row. threshold \<le> match_score (fst row)) (get_matches_for_jd conn jd))"
  unfolding shortlist_as_fold by (simp add: fold_shortlist_step_list)

lemma shortlist_candidates:
  "set (map sl_candidate_id (snd (shortlist_candidates_for_jd threshold jd conn))) =
     {candidate_id m | m. m \<in> set (matches conn) \<and> jd_id m = jd
        \<and> candidates conn (candidate_id m) \<noteq> None \<and> threshold \<le> match_score m}"
proof -
  have "set (map sl_candidate_id (snd (shortlist_candidates_for_jd threshold jd conn))) =
      candidate_id ` {m \<in> fst ` set (get_matches_for_jd conn jd). threshold \<le> match_score m}"
    unfolding shortlist_list by (force simp: entry_def)
  then show ?thesis
    unfolding set_map_fst_get_matches by auto
qed

text \<open>A second run does not see the flags the first one wrote.\<close>

lemma overwrite_twice:
  "overwrite_decisions threshold' jd (overwrite_decisions threshold jd conn) =
     overwrite_decisions threshold' jd conn"
  by (simp add: overwrite_decisions_def comp_def if_distrib cong: if_cong)

lemma distinct_overwrite:
  "distinct (map match_id (matches (overwrite_decisions threshold jd conn))) \<longleftrightarrow>
     distinct (map match_id (matches conn))"
proof -
  have "map match_id (matches (overwrite_decisions threshold jd conn)) =
      map match_id (matches conn)"
    by (simp add: overwrite_decisions_def comp_def if_distrib cong: if_cong)
  then show ?thesis by simp
qed

lemma insort_key_map_same_key:
  assumes "\<And>y. k (G y) = k y"
  shows "insort_key k (G x) (map G xs) = map G (insort_key k x xs)"
  by (induction xs) (simp_all add: assms)

lemma sort_key_map_same_key:
  assumes "\<And>y. k (G y) = k y"
  shows "sort_key k (map G xs) = map G (sort_key k xs)"
  by (induction xs) (simp_all add: insort_key_map_same_key assms)

lemma get_matches_overwrite:
  "get_matches_for_jd (overwrite_decisions threshold jd conn) jd' =
     map (\<lambda>row. (if jd_id (fst row) = jd \<and> candidates conn (candidate_id (fst row)) \<noteq> None
                  then (fst row)\<lparr>shortlist_status := threshold \<le> match_score (fst row)\<rparr>
                  else fst row, snd row))
       (get_matches_for_jd conn jd')"
proof -
  let ?g = "\<lambda>m. if jd_id m = jd \<and> candidates conn (candidate_id m) \<noteq> None
               then m\<lparr>shortlist_status := threshold \<le> match_score m\<rparr> else m"
  let ?G = "\<lambda>row. (?g (fst row), snd row)"
  let ?f = "\<lambda>m. if jd_id m = jd'
            then (case candidates conn (candidate_id m) of
                    Some c \<Rightarrow> Some (m, cv_filename c)
                  | None \<Rightarrow> None)
            else None"
  have joined: "List.map_filter ?f (map ?g ms) = map ?G (List.map_filter ?f ms)" for ms
    by (induction ms) (auto simp: List.map_filter_simps split: option.splits)
  have key: "- match_score (fst (?G row)) = - match_score (fst row)" for row
    by simp
  have same: "candidates (overwrite_decisions threshold jd conn) = candidates conn"
      "matches (overwrite_decisions threshold jd conn) = map ?g (matches conn)"
    by (simp_all add: overwrite_decisions_def)
  have "get_matches_for_jd (overwrite_decisions threshold jd conn) jd' =
      sort_key (\<lambda>row. - match_score (fst row)) (List.map_filter ?f (map ?g (matches conn)))"
    unfolding get_matches_for_jd_def same ..
  also have "\<dots> = map ?G (sort_key (\<lambda>row. - match_score (fst row))
      (List.map_filter ?f (matches conn)))"
    unfolding joined by (rule sort_key_map_same_key) (rule key)
  finally show ?thesis
    by (simp add: get_matches_for_jd_def)
qed

lemma map_entry_filter_map:
  assumes "\<And>row. match_score (fst (G row)) = match_score (fst row)"
    and "\<And>row. entry (G row) = entry row"
  shows "map entry (filter (\<lambda>row. threshold \<le> match_score (fst row)) (map G rows)) =
           map entry (filter (\<lambda>row. threshold \<le> match_score (fst row)) rows)"
  by (induction rows) (simp_all add: assms)

lemma shortlist_list_overwrite:
  "snd (shortlist_candidates_for_jd threshold' jd' (overwrite_decisions threshold jd conn)) =
     snd (shortlist_candidates_for_jd threshold' jd' conn)"
  unfolding shortlist_list get_matches_overwrite
  by (rule map_entry_filter_map) (simp_all add: entry_def)

lemma overwrite_flags:
  assumes "m \<in> set (matches (overwrite_decisions threshold jd conn))"
    and "jd_id m = jd" "candidates conn (candidate_id m) \<noteq> None"
  shows "shortlist_status m = (threshold \<le> match_score m)"
proof -
  define sel where "sel = (\<lambda>m::match_row. jd_id m = jd \<and> candidates conn (candidate_id m) \<noteq> None)"
  have "matches (overwrite_decisions threshold jd conn) =
      map (\<lambda>m. if sel m then m\<lparr>shortlist_status := threshold \<le> match_score m\<rparr> else m)
        (matches conn)"
    by (simp add: overwrite_decisions_def sel_def)
  with assms(1) have "m \<in> (\<lambda>m. if sel m then m\<lparr>shortlist_status := threshold \<le> match_score m\<rparr>
      else m) ` set (matches conn)"
    by (simp only: set_map)
  then obtain m0
    where m0: "m = (if sel m0 then m0\<lparr>shortlist_status := threshold \<le> match_score m0\<rparr> else m0)"
    ..
  show ?thesis
  proof (cases "sel m0")
    case True
    with m0 have "m = m0\<lparr>shortlist_status := threshold \<le> match_score m0\<rparr>"
      by simp
    then show ?thesis by simp
  next
    case False
    with m0 have "m = m0" by simp
    with assms(2,3) False show ?thesis by (simp add: sel_def)
  qed
qed

lemma overwrite_keeps_candidate:
  assumes "m \<in> set (matches (overwrite_decisions threshold jd conn))"
    and "\<forall>m \<in> set (matches conn). candidates conn (candidate_id m) \<noteq> None"
  shows "candidates conn (candidate_id m) \<noteq> None"
proof -
  define sel where "sel = (\<lambda>m::match_row. jd_id m = jd \<and> candidates conn (candidate_id m) \<noteq> None)"
  have "matches (overwrite_decisions threshold jd conn) =
      map (\<lambda>m. if sel m then m\<lparr>shortlist_status := threshold \<le> match_score m\<rparr> else m)
        (matches conn)"
    by (simp add: overwrite_decisions_def sel_def)
  with assms(1) have "m \<in> (\<lambda>m. if sel m then m\<lparr>shortlist_status := threshold \<le> match_score m\<rparr>
      else m) ` set (matches conn)"
    by (simp only: set_map)
  then obtain m0
    where m0: "m0 \<in> set (matches conn)"
      "m = (if sel m0 then m0\<lparr>shortlist_status := threshold \<le> match_score m0\<rparr> else m0)"
    by blast
  from m0(2) have "candidate_id m = candidate_id m0"
    by (cases "sel m0") simp_all
  with m0(1) assms(2) show ?thesis by simp
qed

text \<open>
  C9. Match identifiers are the primary key of the table. After a run for a job,
  the store is the one the specification describes: every row of the job that the
  query returns (its candidate exists) carries the flag \<open>score \<ge> threshold\<close>, whatever
  it carried before, and nothing else has changed; when every stored pair refers to an
  existing candidate, as the foreign key asks, these are all the rows of the job. The
  candidates of the returned list
  are exactly those of these rows with \<open>score \<ge> threshold\<close>. A run after a run gives
  what the second run alone gives, store and list: with the same threshold the
  decisions are the same, with a lower one the rows between the two thresholds turn
  true, with a higher one they turn false.
\<close>

theorem shortlist_overwrites_decisions:
  assumes "distinct (map match_id (matches conn))"
  shows "fst (shortlist_candidates_for_jd threshold jd conn) =
           overwrite_decisions threshold jd conn
       \<and> (\<forall>m \<in> set (matches (fst (shortlist_candidates_for_jd threshold jd conn))).
            jd_id m = jd \<and> candidates conn (candidate_id m) \<noteq> None \<longrightarrow>
              shortlist_status m = (threshold \<le> match_score m))
       \<and> ((\<forall>m \<in> set (matches conn). candidates conn (candidate_id m) \<noteq> None) \<longrightarrow>
            (\<forall>m \<in> set (matches (fst (shortlist_candidates_for_jd threshold jd conn))).
               jd_id m = jd \<longrightarrow> shortlist_status m = (threshold \<le> match_score m)))
       \<and> set (map sl_candidate_id (snd (shortlist_candidates_for_jd threshold jd conn))) =
            {candidate_id m | m. m \<in> set (matches conn) \<and> jd_id m = jd
               \<and> candidates conn (candidate_id m) \<noteq> None \<and> threshold \<le> match_score m}
       \<and> shortlist_candidates_for_jd threshold jd
            (fst (shortlist_candidates_for_jd threshold jd conn)) =
          shortlist_candidates_for_jd threshold jd conn
       \<and> shortlist_candidates_for_jd threshold' jd
            (fst (shortlist_candidates_for_jd threshold jd conn)) =
          (overwrite_decisions threshold' jd conn,
           snd (shortlist_candidates_for_jd threshold' jd conn))"
proof -
  let ?run = "shortlist_candidates_for_jd"
  have first: "fst (?run threshold jd conn) = overwrite_decisions threshold jd conn"
    using assms by (rule shortlist_conn)
  have flags: "\<forall>m \<in> set (matches (fst (?run threshold jd conn))).
            jd_id m = jd \<and> candidates conn (candidate_id m) \<noteq> None \<longrightarrow>
              shortlist_status m = (threshold \<le> match_score m)"
    unfolding first using overwrite_flags[of _ threshold jd conn] by blast
  have all_flags: "(\<forall>m \<in> set (matches conn). candidates conn (candidate_id m) \<noteq> None) \<longrightarrow>
            (\<forall>m \<in> set (matches (fst (?run threshold jd conn))).
               jd_id m = jd \<longrightarrow> shortlist_status m = (threshold \<le> match_score m))"
    unfolding first
    using overwrite_flags[of _ threshold jd conn] overwrite_keeps_candidate[of _ threshold jd conn]
    by blast
  have again: "?run t jd (fst (?run threshold jd conn)) =
      (overwrite_decisions t jd conn, snd (?run t jd conn))" for t
  proof (rule prod_eqI)
    have "distinct (map match_id (matches (overwrite_decisions threshold jd conn)))"
      using assms by (simp only: distinct_overwrite)
    then have "fst (?run t jd (overwrite_decisions threshold jd conn)) =
        overwrite_decisions t jd (overwrite_decisions threshold jd conn)"
      by (rule shortlist_conn)
    then show "fst (?run t jd (fst (?run threshold jd conn))) =
        fst (overwrite_decisions t jd conn, snd (?run t jd conn))"
      unfolding first by (simp only: overwrite_twice fst_conv)
    show "snd (?run t jd (fst (?run threshold jd conn))) =
        snd (overwrite_decisions t jd conn, snd (?run t jd conn))"
      unfolding first by (simp only: shortlist_list_overwrite snd_conv)
  qed
  have "(overwrite_decisions threshold jd conn, snd (?run threshold jd conn)) =
      ?run threshold jd conn"
    by (simp only: first[symmetric] prod.collapse)
  with again[of threshold]
  have same: "?run threshold jd (fst (?run threshold jd conn)) = ?run threshold jd conn"
    by (rule trans)
  from first flags all_flags shortlist_candidates[of threshold jd conn] same again[of threshold']
  show ?thesis by (intro conjI)
qed

theorem shortlist_overwrites_decisions_witness:
  "distinct (map match_id (matches scored_conn))
   \<and> map shortlist_status (matches scored_conn) = [False, True, False, True]
   \<and> map shortlist_status (matches (fst (shortlist_candidates_for_jd (3/4) 1 scored_conn)))
       = [True, False, False, False]
   \<and> map sl_candidate_id (snd (shortlist_candidates_for_jd (3/4) 1 scored_conn)) = [1]
   \<and> map shortlist_status
        (matches (fst (shortlist_candidates_for_jd (1/2) 1
           (fst (shortlist_candidates_for_jd (3/4) 1 scored_conn)))))
       = [True, True, False, False]
   \<and> map sl_candidate_id
        (snd (shortlist_candidates_for_jd (1/2) 1
           (fst (shortlist_candidates_for_jd (3/4) 1 scored_conn))))
       = [1, 2]"
proof -
  have ids: "distinct (map match_id (matches scored_conn))"
    by (simp add: scored_conn_def)
  note run = shortlist_overwrites_decisions[OF ids, of "3/4" 1 "1/2"]
  have before: "map shortlist_status (matches scored_conn) = [False, True, False, True]"
    by (simp add: scored_conn_def)
  have high: "map shortlist_status (matches (overwrite_decisions (3/4) 1 scored_conn))
      = [True, False, False, False]"
    by code_simp
  have high_list: "map sl_candidate_id (snd (shortlist_candidates_for_jd (3/4) 1 scored_conn))
      = [1]"
    by code_simp
  have low: "map shortlist_status (matches (overwrite_decisions (1/2) 1 scored_conn))
      = [True, True, False, False]"
    by code_simp
  have low_list: "map sl_candidate_id (snd (shortlist_candidates_for_jd (1/2) 1 scored_conn))
      = [1, 2]"
    by code_simp
  from run have "fst (shortlist_candidates_for_jd (3/4) 1 scored_conn) =
      overwrite_decisions (3/4) 1 scored_conn"
    by (rule conjunct1)
  moreover from run have "shortlist_candidates_for_jd (1/2) 1
      (fst (shortlist_candidates_for_jd (3/4) 1 scored_conn)) =
      (overwrite_decisions (1/2) 1 scored_conn,
       snd (shortlist_candidates_for_jd (1/2) 1 scored_conn))"
    by blast
  ultimately show ?thesis
    using ids before high high_list low low_list by simp
qed

end
